theory Spec2Isabelle
  imports Main "HOL-Library.Multiset"
begin

section \<open>JSON documents and the encoding/json calls of the package\<close>

text \<open>
  The package works on \<^verbatim>\<open>[]byte\<close> buffers that it hands to Go's \<^verbatim>\<open>encoding/json\<close>.
  The model abstracts a buffer to the JSON document it spells: \<open>None\<close> is a buffer
  that the scanner of \<^verbatim>\<open>json.Unmarshal\<close> rejects (no JSON text), \<open>Some j\<close> a buffer
  holding the document \<open>j\<close>. A \<^verbatim>\<open>json.RawMessage\<close> is a slice of an accepted buffer and
  so always a document. An object keeps its members in order, duplicates included; a
  number keeps its literal.
\<close>

datatype json =
    JNull
  | JBool bool
  | JNumber string
  | JString string
  | JArray "json list"
  | JObject "(string \<times> json) list"

datatype error = SyntaxError | UnmarshalTypeError | CodecError string

text \<open>A Go pointer is \<open>None\<close> when nil; a Go slice is \<open>None\<close> when nil.\<close>

type_synonym 'a ptr = "'a option"
type_synonym 'a slice = "'a list option"

definition append_slice :: "'a slice \<Rightarrow> 'a \<Rightarrow> 'a slice" where
  "append_slice s x = (case s of None \<Rightarrow> Some [x] | Some xs \<Rightarrow> Some (xs @ [x]))"

text \<open>
  \<^verbatim>\<open>json.Unmarshal(data, &raw)\<close> with \<^verbatim>\<open>var raw []json.RawMessage\<close>: a syntax error for a
  rejected buffer; the elements of an array; for the document \<^verbatim>\<open>null\<close> the slice stays
  nil and no error is returned; any other document is an \<^verbatim>\<open>UnmarshalTypeError\<close>.
\<close>

definition unmarshal_RawMessages :: "json option \<Rightarrow> error + json list" where
  "unmarshal_RawMessages data =
     (case data of
        None \<Rightarrow> Inl SyntaxError
      | Some (JArray rs) \<Rightarrow> Inr rs
      | Some JNull \<Rightarrow> Inr []
      | Some _ \<Rightarrow> Inl UnmarshalTypeError)"

text \<open>
  \<^verbatim>\<open>json.Unmarshal(data, &r)\<close> with \<^verbatim>\<open>var r json.RawMessage\<close>: the whole document is
  stored (also \<^verbatim>\<open>null\<close>, since \<^verbatim>\<open>RawMessage.UnmarshalJSON\<close> is called for it).
\<close>

definition unmarshal_RawMessage :: "json option \<Rightarrow> error + json" where
  "unmarshal_RawMessage data = (case data of None \<Rightarrow> Inl SyntaxError | Some j \<Rightarrow> Inr j)"

text \<open>
  Decoding a document into \<^verbatim>\<open>interface{}\<close> stores every number as a \<^verbatim>\<open>float64\<close> through
  \<^verbatim>\<open>strconv.ParseFloat\<close>, which fails on a literal out of range. Floating point is not
  modelled: \<open>pf\<close> says which literals \<^verbatim>\<open>ParseFloat\<close> accepts.
\<close>

fun interface_ok :: "(string \<Rightarrow> bool) \<Rightarrow> json \<Rightarrow> bool" where
  "interface_ok pf (JNumber s) = pf s"
| "interface_ok pf (JArray xs) = list_all (interface_ok pf) xs"
| "interface_ok pf (JObject kvs) = list_all (interface_ok pf) (map snd kvs)"
| "interface_ok pf JNull = True"
| "interface_ok pf (JBool b) = True"
| "interface_ok pf (JString s) = True"

text \<open>
  \<^verbatim>\<open>json.Unmarshal(r, &obj)\<close> with \<^verbatim>\<open>var obj map[string]interface{}\<close>: an object fills
  the map, a later member replacing an earlier one of the same key; \<^verbatim>\<open>null\<close> leaves the
  map nil (it reads as empty) and is no error; every other document is an
  \<^verbatim>\<open>UnmarshalTypeError\<close>.
\<close>

definition unmarshal_map :: "(string \<Rightarrow> bool) \<Rightarrow> json \<Rightarrow> error + (string \<rightharpoonup> json)" where
  "unmarshal_map pf r =
     (case r of
        JObject kvs \<Rightarrow>
          if list_all (interface_ok pf) (map snd kvs) then Inr (map_of (rev kvs))
          else Inl UnmarshalTypeError
      | JNull \<Rightarrow> Inr Map.empty
      | _ \<Rightarrow> Inl UnmarshalTypeError)"

text \<open>
  \<^verbatim>\<open>var t string; if t, ok := obj["type"].(string); ok { t = ... }\<close>: the discriminator is
  the member \<^verbatim>\<open>type\<close> when it is a string and the empty string otherwise.
\<close>

definition type_field :: "(string \<rightharpoonup> json) \<Rightarrow> string" where
  "type_field obj = (case obj ''type'' of Some (JString t) \<Rightarrow> t | _ \<Rightarrow> '''')"

text \<open>\<^verbatim>\<open>json.Marshal\<close> of a pointer and of a slice: nil is \<^verbatim>\<open>null\<close>.\<close>

definition marshal_ptr :: "('a \<Rightarrow> error + json) \<Rightarrow> 'a ptr \<Rightarrow> error + json" where
  "marshal_ptr enc p = (case p of None \<Rightarrow> Inr JNull | Some x \<Rightarrow> enc x)"

fun marshal_list :: "('a \<Rightarrow> error + json) \<Rightarrow> 'a list \<Rightarrow> error + json list" where
  "marshal_list enc [] = Inr []"
| "marshal_list enc (x # xs) =
     (case enc x of
        Inl err \<Rightarrow> Inl err
      | Inr j \<Rightarrow> (case marshal_list enc xs of Inl err \<Rightarrow> Inl err | Inr js \<Rightarrow> Inr (j # js)))"

definition marshal_slice :: "('a \<Rightarrow> error + json) \<Rightarrow> 'a slice \<Rightarrow> error + json" where
  "marshal_slice enc s =
     (case s of
        None \<Rightarrow> Inr JNull
      | Some xs \<Rightarrow> (case marshal_list enc xs of Inl err \<Rightarrow> Inl err | Inr js \<Rightarrow> Inr (JArray js)))"

section \<open>Block elements\<close>

text \<open>
  The element structs (\<^verbatim>\<open>ImageBlockElement\<close>, \<^verbatim>\<open>ButtonBlockElement\<close>,
  \<^verbatim>\<open>OverflowBlockElement\<close>, \<^verbatim>\<open>DatePickerBlockElement\<close>, \<^verbatim>\<open>SelectBlockElement\<close>) are declared
  in other files of the package. They are the type parameters \<open>'i\<close>, \<open>'b\<close>, \<open>'o\<close>, \<open>'d\<close>, \<open>'s\<close>,
  and what \<^verbatim>\<open>encoding/json\<close> does on them is a parameter too: \<open>unmarshal_X J r\<close> is
  \<^verbatim>\<open>json.Unmarshal(r, &X{})\<close>, \<open>marshal_X J x\<close> is \<^verbatim>\<open>json.Marshal\<close> of a struct \<open>x\<close>.
\<close>

record stdlib =
  parseFloat_ok :: "string \<Rightarrow> bool"

record ('i, 'b, 'o, 'd, 's) element_json = stdlib +
  unmarshal_ImageBlockElement :: "json \<Rightarrow> error + 'i"
  unmarshal_ButtonBlockElement :: "json \<Rightarrow> error + 'b"
  unmarshal_OverflowBlockElement :: "json \<Rightarrow> error + 'o"
  unmarshal_DatePickerBlockElement :: "json \<Rightarrow> error + 'd"
  unmarshal_SelectBlockElement :: "json \<Rightarrow> error + 's"
  marshal_ImageBlockElement :: "'i \<Rightarrow> error + json"
  marshal_ButtonBlockElement :: "'b \<Rightarrow> error + json"
  marshal_OverflowBlockElement :: "'o \<Rightarrow> error + json"
  marshal_DatePickerBlockElement :: "'d \<Rightarrow> error + json"
  marshal_SelectBlockElement :: "'s \<Rightarrow> error + json"

text \<open>
  A value of the interface \<^verbatim>\<open>BlockElement\<close>: a pointer to one of the five structs (the
  pointer itself may be nil), or the nil interface.
\<close>

datatype ('i, 'b, 'o, 'd, 's) BlockElement =
    ImageBE "'i ptr"
  | ButtonBE "'b ptr"
  | OverflowBE "'o ptr"
  | DatePickerBE "'d ptr"
  | SelectBE "'s ptr"
  | NilBE

record ('i, 'b, 'o, 'd, 's) BlockElements =
  ImageElements :: "'i ptr list"
  ButtonElements :: "'b ptr list"
  OverflowElements :: "'o ptr list"
  DatePickerElements :: "'d ptr list"
  SelectElements :: "'s ptr list"

definition unmarshalBlockElement :: "(json \<Rightarrow> error + 'a) \<Rightarrow> json \<Rightarrow> error + 'a ptr" where
  "unmarshalBlockElement dec r =
     (case dec r of Inl err \<Rightarrow> Inl err | Inr element \<Rightarrow> Inr (Some element))"

text \<open>
  The body of the loop of \<^verbatim>\<open>BlockElements.UnmarshalJSON\<close>: \<open>Inl err\<close> is
  \<^verbatim>\<open>return err\<close>, \<open>Inr b'\<close> the receiver after the iteration.
\<close>

definition BlockElements_step ::
  "('i, 'b, 'o, 'd, 's, 'z) element_json_scheme \<Rightarrow> json \<Rightarrow> ('i, 'b, 'o, 'd, 's) BlockElements
     \<Rightarrow> error + ('i, 'b, 'o, 'd, 's) BlockElements" where
  "BlockElements_step J r b =
     (case unmarshal_map (parseFloat_ok J) r of
        Inl err \<Rightarrow> Inl err
      | Inr obj \<Rightarrow>
          (let blockElementType = type_field obj in
           if blockElementType = ''image'' then
             (case unmarshalBlockElement (unmarshal_ImageBlockElement J) r of
                Inl err \<Rightarrow> Inl err
              | Inr element \<Rightarrow> Inr (b\<lparr>ImageElements := ImageElements b @ [element]\<rparr>))
           else if blockElementType = ''button'' then
             (case unmarshalBlockElement (unmarshal_ButtonBlockElement J) r of
                Inl err \<Rightarrow> Inl err
              | Inr element \<Rightarrow> Inr (b\<lparr>ButtonElements := ButtonElements b @ [element]\<rparr>))
           else if blockElementType = ''overflow'' then
             (case unmarshalBlockElement (unmarshal_OverflowBlockElement J) r of
                Inl err \<Rightarrow> Inl err
              | Inr element \<Rightarrow> Inr (b\<lparr>OverflowElements := OverflowElements b @ [element]\<rparr>))
           else if blockElementType = ''datepicker'' then
             (case unmarshalBlockElement (unmarshal_DatePickerBlockElement J) r of
                Inl err \<Rightarrow> Inl err
              | Inr element \<Rightarrow> Inr (b\<lparr>DatePickerElements := DatePickerElements b @ [element]\<rparr>))
           else if blockElementType = ''static_select'' then
             (case unmarshalBlockElement (unmarshal_SelectBlockElement J) r of
                Inl err \<Rightarrow> Inl err
              | Inr element \<Rightarrow> Inr (b\<lparr>SelectElements := SelectElements b @ [element]\<rparr>))
           else Inr b))"

text \<open>
  A \<^verbatim>\<open>for _, r := range raw\<close> loop whose body may return an error: the result is the
  error returned (\<open>None\<close> is nil) and the receiver as the call leaves it.
\<close>

fun range_loop :: "(json \<Rightarrow> 'c \<Rightarrow> error + 'c) \<Rightarrow> json list \<Rightarrow> 'c \<Rightarrow> error option \<times> 'c" where
  "range_loop body [] b = (None, b)"
| "range_loop body (r # rs) b =
     (case body r b of Inl err \<Rightarrow> (Some err, b) | Inr b' \<Rightarrow> range_loop body rs b')"

definition BlockElements_UnmarshalJSON ::
  "('i, 'b, 'o, 'd, 's, 'z) element_json_scheme \<Rightarrow> json option \<Rightarrow> ('i, 'b, 'o, 'd, 's) BlockElements
     \<Rightarrow> error option \<times> ('i, 'b, 'o, 'd, 's) BlockElements" where
  "BlockElements_UnmarshalJSON J data b =
     (case unmarshal_RawMessages data of
        Inl err \<Rightarrow> (Some err, b)
      | Inr raw \<Rightarrow> range_loop (BlockElements_step J) raw b)"

definition appendToBlockElements ::
  "('i, 'b, 'o, 'd, 's) BlockElement list \<Rightarrow> ('i, 'b, 'o, 'd, 's) BlockElements
     \<Rightarrow> ('i, 'b, 'o, 'd, 's) BlockElements" where
  "appendToBlockElements appendElements e =
     fold (\<lambda>element e.
        case element of
          ImageBE elementType \<Rightarrow> e\<lparr>ImageElements := ImageElements e @ [elementType]\<rparr>
        | ButtonBE elementType \<Rightarrow> e\<lparr>ButtonElements := ButtonElements e @ [elementType]\<rparr>
        | OverflowBE elementType \<Rightarrow> e\<lparr>OverflowElements := OverflowElements e @ [elementType]\<rparr>
        | DatePickerBE elementType \<Rightarrow> e\<lparr>DatePickerElements := DatePickerElements e @ [elementType]\<rparr>
        | SelectBE elementType \<Rightarrow> e\<lparr>SelectElements := SelectElements e @ [elementType]\<rparr>
        | NilBE \<Rightarrow> e) appendElements e"

text \<open>
  \<^verbatim>\<open>var slice []BlockElement\<close> starts nil, and each of the five loops appends the
  elements of one accumulator.
\<close>

definition toBlockElementSlice ::
  "('i, 'b, 'o, 'd, 's) BlockElements \<Rightarrow> ('i, 'b, 'o, 'd, 's) BlockElement slice" where
  "toBlockElementSlice elements =
     (let slice = None;
          slice = fold (\<lambda>element slice. append_slice slice (ImageBE element))
                    (ImageElements elements) slice;
          slice = fold (\<lambda>element slice. append_slice slice (ButtonBE element))
                    (ButtonElements elements) slice;
          slice = fold (\<lambda>element slice. append_slice slice (OverflowBE element))
                    (OverflowElements elements) slice;
          slice = fold (\<lambda>element slice. append_slice slice (DatePickerBE element))
                    (DatePickerElements elements) slice;
          slice = fold (\<lambda>element slice. append_slice slice (SelectBE element))
                    (SelectElements elements) slice
      in slice)"

text \<open>\<^verbatim>\<open>json.Marshal\<close> of a \<^verbatim>\<open>BlockElement\<close> interface value: the nil interface is \<^verbatim>\<open>null\<close>.\<close>

definition marshal_BlockElement ::
  "('i, 'b, 'o, 'd, 's, 'z) element_json_scheme \<Rightarrow> ('i, 'b, 'o, 'd, 's) BlockElement
     \<Rightarrow> error + json" where
  "marshal_BlockElement J element =
     (case element of
        ImageBE p \<Rightarrow> marshal_ptr (marshal_ImageBlockElement J) p
      | ButtonBE p \<Rightarrow> marshal_ptr (marshal_ButtonBlockElement J) p
      | OverflowBE p \<Rightarrow> marshal_ptr (marshal_OverflowBlockElement J) p
      | DatePickerBE p \<Rightarrow> marshal_ptr (marshal_DatePickerBlockElement J) p
      | SelectBE p \<Rightarrow> marshal_ptr (marshal_SelectBlockElement J) p
      | NilBE \<Rightarrow> Inr JNull)"

definition BlockElements_MarshalJSON ::
  "('i, 'b, 'o, 'd, 's, 'z) element_json_scheme \<Rightarrow> ('i, 'b, 'o, 'd, 's) BlockElements
     \<Rightarrow> error + json" where
  "BlockElements_MarshalJSON J e =
     (case marshal_slice (marshal_BlockElement J) (toBlockElementSlice e) of
        Inl err \<Rightarrow> Inl err
      | Inr bytes \<Rightarrow> Inr bytes)"

section \<open>Accessory\<close>

record ('i, 'b, 'o, 'd, 's) Accessory =
  ImageElement :: "'i ptr"
  ButtonElement :: "'b ptr"
  OverflowElement :: "'o ptr"
  DatePickerElement :: "'d ptr"
  SelectElement :: "'s ptr"

definition toBlockElement ::
  "('i, 'b, 'o, 'd, 's) Accessory \<Rightarrow> ('i, 'b, 'o, 'd, 's) BlockElement" where
  "toBlockElement element =
     (if ImageElement element \<noteq> None then ImageBE (ImageElement element)
      else if ButtonElement element \<noteq> None then ButtonBE (ButtonElement element)
      else if OverflowElement element \<noteq> None then OverflowBE (OverflowElement element)
      else if DatePickerElement element \<noteq> None then DatePickerBE (DatePickerElement element)
      else if SelectElement element \<noteq> None then SelectBE (SelectElement element)
      else NilBE)"

definition Accessory_MarshalJSON ::
  "('i, 'b, 'o, 'd, 's, 'z) element_json_scheme \<Rightarrow> ('i, 'b, 'o, 'd, 's) Accessory
     \<Rightarrow> error + json" where
  "Accessory_MarshalJSON J a =
     (case marshal_BlockElement J (toBlockElement a) of
        Inl err \<Rightarrow> Inl err
      | Inr bytes \<Rightarrow> Inr bytes)"

definition Accessory_UnmarshalJSON ::
  "('i, 'b, 'o, 'd, 's, 'z) element_json_scheme \<Rightarrow> json option \<Rightarrow> ('i, 'b, 'o, 'd, 's) Accessory
     \<Rightarrow> error option \<times> ('i, 'b, 'o, 'd, 's) Accessory" where
  "Accessory_UnmarshalJSON J data a =
     (case unmarshal_RawMessage data of
        Inl err \<Rightarrow> (Some err, a)
      | Inr r \<Rightarrow>
     (case unmarshal_map (parseFloat_ok J) r of
        Inl err \<Rightarrow> (Some err, a)
      | Inr obj \<Rightarrow>
          (let blockElementType = type_field obj in
           if blockElementType = ''image'' then
             (case unmarshalBlockElement (unmarshal_ImageBlockElement J) r of
                Inl err \<Rightarrow> (Some err, a)
              | Inr element \<Rightarrow> (None, a\<lparr>ImageElement := element\<rparr>))
           else if blockElementType = ''button'' then
             (case unmarshalBlockElement (unmarshal_ButtonBlockElement J) r of
                Inl err \<Rightarrow> (Some err, a)
              | Inr element \<Rightarrow> (None, a\<lparr>ButtonElement := element\<rparr>))
           else if blockElementType = ''overflow'' then
             (case unmarshalBlockElement (unmarshal_OverflowBlockElement J) r of
                Inl err \<Rightarrow> (Some err, a)
              | Inr element \<Rightarrow> (None, a\<lparr>OverflowElement := element\<rparr>))
           else if blockElementType = ''datepicker'' then
             (case unmarshalBlockElement (unmarshal_DatePickerBlockElement J) r of
                Inl err \<Rightarrow> (Some err, a)
              | Inr element \<Rightarrow> (None, a\<lparr>DatePickerElement := element\<rparr>))
           else if blockElementType = ''static_select'' then
             (case unmarshalBlockElement (unmarshal_SelectBlockElement J) r of
                Inl err \<Rightarrow> (Some err, a)
              | Inr element \<Rightarrow> (None, a\<lparr>SelectElement := element\<rparr>))
           else (None, a))))"

section \<open>Context elements\<close>

text \<open>
  \<^verbatim>\<open>TextBlockObject\<close> is the type parameter \<open>'t\<close>, with its decoder and encoder.
\<close>

record ('i, 'b, 'o, 'd, 's, 't) context_json = "('i, 'b, 'o, 'd, 's) element_json" +
  unmarshal_TextBlockObject :: "json \<Rightarrow> error + 't"
  marshal_TextBlockObject :: "'t \<Rightarrow> error + json"

text \<open>
  Modelled from the spec: the constants \<^verbatim>\<open>PlainTextType\<close> and \<^verbatim>\<open>MarkdownType\<close> are
  declared in another file of the package; the spec gives the discriminators of the two text
  objects as \<^verbatim>\<open>plain_text\<close> and \<^verbatim>\<open>mrkdwn\<close>.
\<close>

definition PlainTextType :: string where
  "PlainTextType = ''plain_text''"

definition MarkdownType :: string where
  "MarkdownType = ''mrkdwn''"

text \<open>
  Modelled from the spec: \<^verbatim>\<open>unmarshalBlockObject\<close> is declared in another file of the package;
  by the spec it decodes the raw element into the concrete structure and hands a decode
  error on, as \<^verbatim>\<open>unmarshalBlockElement\<close> does.
\<close>

definition unmarshalBlockObject :: "(json \<Rightarrow> error + 'a) \<Rightarrow> json \<Rightarrow> error + 'a ptr" where
  "unmarshalBlockObject dec r =
     (case dec r of Inl err \<Rightarrow> Inl err | Inr object \<Rightarrow> Inr (Some object))"

datatype ('i, 't) mixedElement = ImageME "'i ptr" | TextME "'t ptr"

record ('i, 't) ContextElements =
  ImageElements_c :: "'i ptr list"
  TextObjects :: "'t ptr list"

definition toMixedElements :: "('i, 't) ContextElements \<Rightarrow> ('i, 't) mixedElement slice" where
  "toMixedElements elements =
     (let slice = None;
          slice = fold (\<lambda>element slice. append_slice slice (ImageME element))
                    (ImageElements_c elements) slice;
          slice = fold (\<lambda>element slice. append_slice slice (TextME element))
                    (TextObjects elements) slice
      in slice)"

definition marshal_mixedElement ::
  "('i, 'b, 'o, 'd, 's, 't, 'z) context_json_scheme \<Rightarrow> ('i, 't) mixedElement \<Rightarrow> error + json" where
  "marshal_mixedElement J element =
     (case element of
        ImageME p \<Rightarrow> marshal_ptr (marshal_ImageBlockElement J) p
      | TextME p \<Rightarrow> marshal_ptr (marshal_TextBlockObject J) p)"

definition ContextElements_MarshalJSON ::
  "('i, 'b, 'o, 'd, 's, 't, 'z) context_json_scheme \<Rightarrow> ('i, 't) ContextElements \<Rightarrow> error + json" where
  "ContextElements_MarshalJSON J e =
     (case marshal_slice (marshal_mixedElement J) (toMixedElements e) of
        Inl err \<Rightarrow> Inl err
      | Inr bytes \<Rightarrow> Inr bytes)"

definition ContextElements_step ::
  "('i, 'b, 'o, 'd, 's, 't, 'z) context_json_scheme \<Rightarrow> json \<Rightarrow> ('i, 't) ContextElements
     \<Rightarrow> error + ('i, 't) ContextElements" where
  "ContextElements_step J r e =
     (case unmarshal_map (parseFloat_ok J) r of
        Inl err \<Rightarrow> Inl err
      | Inr obj \<Rightarrow>
          (let contextElementType = type_field obj in
           if contextElementType = PlainTextType \<or> contextElementType = MarkdownType then
             (case unmarshalBlockObject (unmarshal_TextBlockObject J) r of
                Inl err \<Rightarrow> Inl err
              | Inr elem \<Rightarrow> Inr (e\<lparr>TextObjects := TextObjects e @ [elem]\<rparr>))
           else if contextElementType = ''image'' then
             (case unmarshalBlockElement (unmarshal_ImageBlockElement J) r of
                Inl err \<Rightarrow> Inl err
              | Inr elem \<Rightarrow> Inr (e\<lparr>ImageElements_c := ImageElements_c e @ [elem]\<rparr>))
           else Inr e))"

definition ContextElements_UnmarshalJSON ::
  "('i, 'b, 'o, 'd, 's, 't, 'z) context_json_scheme \<Rightarrow> json option \<Rightarrow> ('i, 't) ContextElements
     \<Rightarrow> error option \<times> ('i, 't) ContextElements" where
  "ContextElements_UnmarshalJSON J data e =
     (case unmarshal_RawMessages data of
        Inl err \<Rightarrow> (Some err, e)
      | Inr raw \<Rightarrow> range_loop (ContextElements_step J) raw e)"

section \<open>Blocks\<close>

text \<open>
  The block structs (\<^verbatim>\<open>ActionBlock\<close>, \<^verbatim>\<open>ContextBlock\<close>, \<^verbatim>\<open>DividerBlock\<close>, \<^verbatim>\<open>ImageBlock\<close>,
  \<^verbatim>\<open>SectionBlock\<close>) are the type parameters \<open>'ab\<close>, \<open>'cb\<close>, \<open>'db\<close>, \<open>'ib\<close>, \<open>'sb\<close>.
  The container has the five accumulators that \<^verbatim>\<open>Blocks.UnmarshalJSON\<close> and
  \<^verbatim>\<open>appendToBlocks\<close> write (\<^verbatim>\<open>block.go\<close> declares \<^verbatim>\<open>Blocks\<close> with the single field
  \<^verbatim>\<open>BlockSet\<close>, which neither function touches; the model follows the two functions).
  A value of the interface \<^verbatim>\<open>Block\<close> is a pointer to one of the five structs or the nil
  interface: its only method is unexported, so no type outside the package implements it.
\<close>

record ('ab, 'cb, 'db, 'ib, 'sb) block_json = stdlib +
  unmarshal_ActionBlock :: "json \<Rightarrow> error + 'ab"
  unmarshal_ContextBlock :: "json \<Rightarrow> error + 'cb"
  unmarshal_DividerBlock :: "json \<Rightarrow> error + 'db"
  unmarshal_ImageBlock :: "json \<Rightarrow> error + 'ib"
  unmarshal_SectionBlock :: "json \<Rightarrow> error + 'sb"

datatype ('ab, 'cb, 'db, 'ib, 'sb) Block =
    ActionB "'ab ptr"
  | ContextB "'cb ptr"
  | DividerB "'db ptr"
  | ImageB "'ib ptr"
  | SectionB "'sb ptr"
  | NilB

record ('ab, 'cb, 'db, 'ib, 'sb) Blocks =
  ActionBlocks :: "'ab ptr list"
  ContextBlocks :: "'cb ptr list"
  DividerBlocks :: "'db ptr list"
  ImageBlocks :: "'ib ptr list"
  SectionBlocks :: "'sb ptr list"

definition unmarshalBlock :: "(json \<Rightarrow> error + 'a) \<Rightarrow> json \<Rightarrow> error + 'a ptr" where
  "unmarshalBlock dec r =
     (case dec r of Inl err \<Rightarrow> Inl err | Inr block \<Rightarrow> Inr (Some block))"

definition Blocks_step ::
  "('ab, 'cb, 'db, 'ib, 'sb, 'z) block_json_scheme \<Rightarrow> json \<Rightarrow> ('ab, 'cb, 'db, 'ib, 'sb) Blocks
     \<Rightarrow> error + ('ab, 'cb, 'db, 'ib, 'sb) Blocks" where
  "Blocks_step J r b =
     (case unmarshal_map (parseFloat_ok J) r of
        Inl err \<Rightarrow> Inl err
      | Inr obj \<Rightarrow>
          (let blockType = type_field obj in
           if blockType = ''actions'' then
             (case unmarshalBlock (unmarshal_ActionBlock J) r of
                Inl err \<Rightarrow> Inl err
              | Inr block \<Rightarrow> Inr (b\<lparr>ActionBlocks := ActionBlocks b @ [block]\<rparr>))
           else if blockType = ''context'' then
             (case unmarshalBlock (unmarshal_ContextBlock J) r of
                Inl err \<Rightarrow> Inl err
              | Inr block \<Rightarrow> Inr (b\<lparr>ContextBlocks := ContextBlocks b @ [block]\<rparr>))
           else if blockType = ''divider'' then
             (case unmarshalBlock (unmarshal_DividerBlock J) r of
                Inl err \<Rightarrow> Inl err
              | Inr block \<Rightarrow> Inr (b\<lparr>DividerBlocks := DividerBlocks b @ [block]\<rparr>))
           else if blockType = ''image'' then
             (case unmarshalBlock (unmarshal_ImageBlock J) r of
                Inl err \<Rightarrow> Inl err
              | Inr block \<Rightarrow> Inr (b\<lparr>ImageBlocks := ImageBlocks b @ [block]\<rparr>))
           else if blockType = ''section'' then
             (case unmarshalBlock (unmarshal_SectionBlock J) r of
                Inl err \<Rightarrow> Inl err
              | Inr block \<Rightarrow> Inr (b\<lparr>SectionBlocks := SectionBlocks b @ [block]\<rparr>))
           else Inr b))"

definition Blocks_UnmarshalJSON ::
  "('ab, 'cb, 'db, 'ib, 'sb, 'z) block_json_scheme \<Rightarrow> json option \<Rightarrow> ('ab, 'cb, 'db, 'ib, 'sb) Blocks
     \<Rightarrow> error option \<times> ('ab, 'cb, 'db, 'ib, 'sb) Blocks" where
  "Blocks_UnmarshalJSON J data b =
     (case unmarshal_RawMessages data of
        Inl err \<Rightarrow> (Some err, b)
      | Inr raw \<Rightarrow> range_loop (Blocks_step J) raw b)"

definition appendToBlocks ::
  "('ab, 'cb, 'db, 'ib, 'sb) Block list \<Rightarrow> ('ab, 'cb, 'db, 'ib, 'sb) Blocks
     \<Rightarrow> ('ab, 'cb, 'db, 'ib, 'sb) Blocks" where
  "appendToBlocks appendBlocks b =
     fold (\<lambda>block b.
        case block of
          ActionB blockType \<Rightarrow> b\<lparr>ActionBlocks := ActionBlocks b @ [blockType]\<rparr>
        | ContextB blockType \<Rightarrow> b\<lparr>ContextBlocks := ContextBlocks b @ [blockType]\<rparr>
        | DividerB blockType \<Rightarrow> b\<lparr>DividerBlocks := DividerBlocks b @ [blockType]\<rparr>
        | ImageB blockType \<Rightarrow> b\<lparr>ImageBlocks := ImageBlocks b @ [blockType]\<rparr>
        | SectionB blockType \<Rightarrow> b\<lparr>SectionBlocks := SectionBlocks b @ [blockType]\<rparr>
        | NilB \<Rightarrow> b) appendBlocks b"

section \<open>Notions used to state the properties\<close>

text \<open>
  An element is a well-formed object when it is a JSON object that decodes into
  \<^verbatim>\<open>map[string]interface{}\<close>; its discriminator is then the string member \<^verbatim>\<open>type\<close> (the
  last one, if there are several), or the empty string.
\<close>

definition is_array :: "json \<Rightarrow> bool" where
  "is_array j = (case j of JArray rs \<Rightarrow> True | _ \<Rightarrow> False)"

definition wellformed_object :: "(string \<Rightarrow> bool) \<Rightarrow> json \<Rightarrow> bool" where
  "wellformed_object pf r =
     (case r of JObject kvs \<Rightarrow> list_all (interface_ok pf) (map snd kvs) | _ \<Rightarrow> False)"

definition elem_type :: "json \<Rightarrow> string" where
  "elem_type r = (case r of JObject kvs \<Rightarrow> type_field (map_of (rev kvs)) | _ \<Rightarrow> [])"

definition type_is_string :: "json \<Rightarrow> bool" where
  "type_is_string r =
     (case r of
        JObject kvs \<Rightarrow> (case map_of (rev kvs) ''type'' of Some (JString t) \<Rightarrow> True | _ \<Rightarrow> False)
      | _ \<Rightarrow> False)"

definition of_type :: "string \<Rightarrow> json list \<Rightarrow> json list" where
  "of_type t rs = filter (\<lambda>r. elem_type r = t) rs"

definition text_typed :: "json list \<Rightarrow> json list" where
  "text_typed rs = filter (\<lambda>r. elem_type r = PlainTextType \<or> elem_type r = MarkdownType) rs"

text \<open>The discriminators that each decoder has a case for.\<close>

definition block_types :: "string list" where
  "block_types = [''actions'', ''context'', ''divider'', ''image'', ''section'']"

definition element_types :: "string list" where
  "element_types = [''image'', ''button'', ''overflow'', ''datepicker'', ''static_select'']"

definition context_types :: "string list" where
  "context_types = [PlainTextType, MarkdownType, ''image'']"

definition recognized :: "string list \<Rightarrow> json list \<Rightarrow> json list" where
  "recognized ts rs = filter (\<lambda>r. elem_type r \<in> set ts) rs"

text \<open>The containers of a fresh decode call: every accumulator and every slot is nil.\<close>

definition empty_BlockElements :: "('i, 'b, 'o, 'd, 's) BlockElements" where
  "empty_BlockElements =
     \<lparr>ImageElements = [], ButtonElements = [], OverflowElements = [],
      DatePickerElements = [], SelectElements = []\<rparr>"

definition empty_Accessory :: "('i, 'b, 'o, 'd, 's) Accessory" where
  "empty_Accessory =
     \<lparr>ImageElement = None, ButtonElement = None, OverflowElement = None,
      DatePickerElement = None, SelectElement = None\<rparr>"

definition empty_ContextElements :: "('i, 't) ContextElements" where
  "empty_ContextElements = \<lparr>ImageElements_c = [], TextObjects = []\<rparr>"

definition empty_Blocks :: "('ab, 'cb, 'db, 'ib, 'sb) Blocks" where
  "empty_Blocks =
     \<lparr>ActionBlocks = [], ContextBlocks = [], DividerBlocks = [], ImageBlocks = [],
      SectionBlocks = []\<rparr>"

text \<open>
  An instance of the parameters for concrete runs: every struct keeps the document it
  was decoded from and encodes to it again, and every number literal is in range.
\<close>

definition doc_json :: "(json, json, json, json, json, json) context_json" where
  "doc_json =
     \<lparr>parseFloat_ok = (\<lambda>s. True),
      unmarshal_ImageBlockElement = Inr, unmarshal_ButtonBlockElement = Inr,
      unmarshal_OverflowBlockElement = Inr, unmarshal_DatePickerBlockElement = Inr,
      unmarshal_SelectBlockElement = Inr,
      marshal_ImageBlockElement = Inr, marshal_ButtonBlockElement = Inr,
      marshal_OverflowBlockElement = Inr, marshal_DatePickerBlockElement = Inr,
      marshal_SelectBlockElement = Inr,
      unmarshal_TextBlockObject = Inr, marshal_TextBlockObject = Inr\<rparr>"

definition doc_block_json :: "(json, json, json, json, json) block_json" where
  "doc_block_json =
     \<lparr>parseFloat_ok = (\<lambda>s. True),
      unmarshal_ActionBlock = Inr, unmarshal_ContextBlock = Inr, unmarshal_DividerBlock = Inr,
      unmarshal_ImageBlock = Inr, unmarshal_SectionBlock = Inr\<rparr>"

definition typed :: "string \<Rightarrow> json" where
  "typed t = JObject [(''type'', JString t)]"

text \<open>A decoder turns the documents \<open>rs\<close> into the structs \<open>xs\<close>, one by one, without error.\<close>

definition decodes_to :: "(json \<Rightarrow> error + 'a) \<Rightarrow> json list \<Rightarrow> 'a list \<Rightarrow> bool" where
  "decodes_to dec rs xs = (map dec rs = map Inr xs)"

text \<open>
  The elements at which a decode call stops: a document that is neither \<^verbatim>\<open>null\<close> nor a
  well-formed object, or an element of a recognized variant that its struct decoder
  rejects.
\<close>

definition malformed_Block ::
  "('ab, 'cb, 'db, 'ib, 'sb, 'z) block_json_scheme \<Rightarrow> json \<Rightarrow> bool" where
  "malformed_Block J r =
     ((r \<noteq> JNull \<and> \<not> wellformed_object (parseFloat_ok J) r)
      \<or> (elem_type r = ''actions'' \<and> isl (unmarshal_ActionBlock J r))
      \<or> (elem_type r = ''context'' \<and> isl (unmarshal_ContextBlock J r))
      \<or> (elem_type r = ''divider'' \<and> isl (unmarshal_DividerBlock J r))
      \<or> (elem_type r = ''image'' \<and> isl (unmarshal_ImageBlock J r))
      \<or> (elem_type r = ''section'' \<and> isl (unmarshal_SectionBlock J r)))"

definition malformed_BlockElement ::
  "('i, 'b, 'o, 'd, 's, 'z) element_json_scheme \<Rightarrow> json \<Rightarrow> bool" where
  "malformed_BlockElement J r =
     ((r \<noteq> JNull \<and> \<not> wellformed_object (parseFloat_ok J) r)
      \<or> (elem_type r = ''image'' \<and> isl (unmarshal_ImageBlockElement J r))
      \<or> (elem_type r = ''button'' \<and> isl (unmarshal_ButtonBlockElement J r))
      \<or> (elem_type r = ''overflow'' \<and> isl (unmarshal_OverflowBlockElement J r))
      \<or> (elem_type r = ''datepicker'' \<and> isl (unmarshal_DatePickerBlockElement J r))
      \<or> (elem_type r = ''static_select'' \<and> isl (unmarshal_SelectBlockElement J r)))"

definition malformed_ContextElement ::
  "('i, 'b, 'o, 'd, 's, 't, 'z) context_json_scheme \<Rightarrow> json \<Rightarrow> bool" where
  "malformed_ContextElement J r =
     ((r \<noteq> JNull \<and> \<not> wellformed_object (parseFloat_ok J) r)
      \<or> ((elem_type r = PlainTextType \<or> elem_type r = MarkdownType)
          \<and> isl (unmarshal_TextBlockObject J r))
      \<or> (elem_type r = ''image'' \<and> isl (unmarshal_ImageBlockElement J r)))"

text \<open>The number of elements a container holds.\<close>

definition count_Blocks :: "('ab, 'cb, 'db, 'ib, 'sb) Blocks \<Rightarrow> nat" where
  "count_Blocks b =
     length (ActionBlocks b) + length (ContextBlocks b) + length (DividerBlocks b)
     + length (ImageBlocks b) + length (SectionBlocks b)"

definition count_BlockElements :: "('i, 'b, 'o, 'd, 's) BlockElements \<Rightarrow> nat" where
  "count_BlockElements e =
     length (ImageElements e) + length (ButtonElements e) + length (OverflowElements e)
     + length (DatePickerElements e) + length (SelectElements e)"

definition count_ContextElements :: "('i, 't) ContextElements \<Rightarrow> nat" where
  "count_ContextElements e = length (ImageElements_c e) + length (TextObjects e)"

text \<open>
  Decoding one element of a \<^verbatim>\<open>BlockElements\<close> array as the struct of its discriminator
  and encoding that struct again; an element of no recognized variant has no such
  encoding.
\<close>

definition recode_BlockElement ::
  "('i, 'b, 'o, 'd, 's, 'z) element_json_scheme \<Rightarrow> json \<Rightarrow> error + json" where
  "recode_BlockElement J r =
     (if elem_type r = ''image'' then
        (case unmarshal_ImageBlockElement J r of
           Inl err \<Rightarrow> Inl err | Inr x \<Rightarrow> marshal_ImageBlockElement J x)
      else if elem_type r = ''button'' then
        (case unmarshal_ButtonBlockElement J r of
           Inl err \<Rightarrow> Inl err | Inr x \<Rightarrow> marshal_ButtonBlockElement J x)
      else if elem_type r = ''overflow'' then
        (case unmarshal_OverflowBlockElement J r of
           Inl err \<Rightarrow> Inl err | Inr x \<Rightarrow> marshal_OverflowBlockElement J x)
      else if elem_type r = ''datepicker'' then
        (case unmarshal_DatePickerBlockElement J r of
           Inl err \<Rightarrow> Inl err | Inr x \<Rightarrow> marshal_DatePickerBlockElement J x)
      else if elem_type r = ''static_select'' then
        (case unmarshal_SelectBlockElement J r of
           Inl err \<Rightarrow> Inl err | Inr x \<Rightarrow> marshal_SelectBlockElement J x)
      else Inl (CodecError ''unrecognized''))"

text \<open>
  \<open>picks t rs js\<close> are those of \<open>js\<close> whose partner in \<open>rs\<close> has the discriminator \<open>t\<close>, in
  order; \<open>grouped rs js\<close> lists \<open>js\<close> kind by kind, in the order of the accumulators.
\<close>

definition picks :: "string \<Rightarrow> json list \<Rightarrow> 'a list \<Rightarrow> 'a list" where
  "picks t rs js = map snd (filter (\<lambda>p. elem_type (fst p) = t) (zip rs js))"

definition grouped :: "json list \<Rightarrow> 'a list \<Rightarrow> 'a list" where
  "grouped rs js =
     picks ''image'' rs js @ picks ''button'' rs js @ picks ''overflow'' rs js
     @ picks ''datepicker'' rs js @ picks ''static_select'' rs js"

text \<open>The flat sequences that the two encoders are to emit.\<close>

definition all_BlockElements ::
  "('i, 'b, 'o, 'd, 's) BlockElements \<Rightarrow> ('i, 'b, 'o, 'd, 's) BlockElement list" where
  "all_BlockElements e =
     map ImageBE (ImageElements e) @ map ButtonBE (ButtonElements e)
     @ map OverflowBE (OverflowElements e) @ map DatePickerBE (DatePickerElements e)
     @ map SelectBE (SelectElements e)"

definition all_ContextElements :: "('i, 't) ContextElements \<Rightarrow> ('i, 't) mixedElement list" where
  "all_ContextElements e = map ImageME (ImageElements_c e) @ map TextME (TextObjects e)"

text \<open>
  An array for concrete runs: an element of a future variant among recognized ones.
\<close>

definition mixed_array :: "json list" where
  "mixed_array =
     [typed ''image'', typed ''future'', typed ''section'', typed ''button'', typed ''mrkdwn'']"

text \<open>A document that is a JSON object, whatever its members.\<close>

definition is_object :: "json \<Rightarrow> bool" where
  "is_object r = (case r of JObject kvs \<Rightarrow> True | _ \<Rightarrow> False)"

text \<open>
  A second instance of the parameters for concrete runs: a struct whose member
  \<^verbatim>\<open>text\<close> must not be a number, as \<^verbatim>\<open>json.Unmarshal\<close> refuses a number for a field that
  is a string or a struct, and the number literal \<^verbatim>\<open>1e999\<close> out of the range of
  \<^verbatim>\<open>float64\<close>.
\<close>

definition strict_struct :: "json \<Rightarrow> error + json" where
  "strict_struct r =
     (case r of
        JObject kvs \<Rightarrow>
          (case map_of (rev kvs) ''text'' of
             Some (JNumber n) \<Rightarrow> Inl UnmarshalTypeError
           | _ \<Rightarrow> Inr r)
      | _ \<Rightarrow> Inl UnmarshalTypeError)"

definition strict_json :: "(json, json, json, json, json, json) context_json" where
  "strict_json =
     \<lparr>parseFloat_ok = (\<lambda>s. s \<noteq> ''1e999''),
      unmarshal_ImageBlockElement = strict_struct, unmarshal_ButtonBlockElement = strict_struct,
      unmarshal_OverflowBlockElement = strict_struct,
      unmarshal_DatePickerBlockElement = strict_struct,
      unmarshal_SelectBlockElement = strict_struct,
      marshal_ImageBlockElement = Inr, marshal_ButtonBlockElement = Inr,
      marshal_OverflowBlockElement = Inr, marshal_DatePickerBlockElement = Inr,
      marshal_SelectBlockElement = Inr,
      unmarshal_TextBlockObject = strict_struct, marshal_TextBlockObject = Inr\<rparr>"

definition strict_block_json :: "(json, json, json, json, json) block_json" where
  "strict_block_json =
     \<lparr>parseFloat_ok = (\<lambda>s. s \<noteq> ''1e999''),
      unmarshal_ActionBlock = strict_struct, unmarshal_ContextBlock = strict_struct,
      unmarshal_DividerBlock = strict_struct, unmarshal_ImageBlock = strict_struct,
      unmarshal_SectionBlock = strict_struct\<rparr>"

section \<open>Properties of the append operations\<close>

lemma appendToBlockElements_Cons:
  "appendToBlockElements (x # xs) e =
     appendToBlockElements xs
       (case x of
          ImageBE p \<Rightarrow> e\<lparr>ImageElements := ImageElements e @ [p]\<rparr>
        | ButtonBE p \<Rightarrow> e\<lparr>ButtonElements := ButtonElements e @ [p]\<rparr>
        | OverflowBE p \<Rightarrow> e\<lparr>OverflowElements := OverflowElements e @ [p]\<rparr>
        | DatePickerBE p \<Rightarrow> e\<lparr>DatePickerElements := DatePickerElements e @ [p]\<rparr>
        | SelectBE p \<Rightarrow> e\<lparr>SelectElements := SelectElements e @ [p]\<rparr>
        | NilBE \<Rightarrow> e)"
  by (simp add: appendToBlockElements_def)

lemma appendToBlockElements_routes:
  "appendToBlockElements es e =
     e\<lparr>ImageElements := ImageElements e @ [p. ImageBE p \<leftarrow> es],
       ButtonElements := ButtonElements e @ [p. ButtonBE p \<leftarrow> es],
       OverflowElements := OverflowElements e @ [p. OverflowBE p \<leftarrow> es],
       DatePickerElements := DatePickerElements e @ [p. DatePickerBE p \<leftarrow> es],
       SelectElements := SelectElements e @ [p. SelectBE p \<leftarrow> es]\<rparr>"
proof (induction es arbitrary: e)
  case Nil
  show ?case by (simp add: appendToBlockElements_def)
next
  case (Cons x es)
  show ?case
    by (cases x) (simp_all add: appendToBlockElements_Cons Cons.IH)
qed

lemma appendToBlocks_Cons:
  "appendToBlocks (x # xs) b =
     appendToBlocks xs
       (case x of
          ActionB p \<Rightarrow> b\<lparr>ActionBlocks := ActionBlocks b @ [p]\<rparr>
        | ContextB p \<Rightarrow> b\<lparr>ContextBlocks := ContextBlocks b @ [p]\<rparr>
        | DividerB p \<Rightarrow> b\<lparr>DividerBlocks := DividerBlocks b @ [p]\<rparr>
        | ImageB p \<Rightarrow> b\<lparr>ImageBlocks := ImageBlocks b @ [p]\<rparr>
        | SectionB p \<Rightarrow> b\<lparr>SectionBlocks := SectionBlocks b @ [p]\<rparr>
        | NilB \<Rightarrow> b)"
  by (simp add: appendToBlocks_def)

lemma appendToBlocks_routes:
  "appendToBlocks bs b =
     b\<lparr>ActionBlocks := ActionBlocks b @ [p. ActionB p \<leftarrow> bs],
       ContextBlocks := ContextBlocks b @ [p. ContextB p \<leftarrow> bs],
       DividerBlocks := DividerBlocks b @ [p. DividerB p \<leftarrow> bs],
       ImageBlocks := ImageBlocks b @ [p. ImageB p \<leftarrow> bs],
       SectionBlocks := SectionBlocks b @ [p. SectionB p \<leftarrow> bs]\<rparr>"
proof (induction bs arbitrary: b)
  case Nil
  show ?case by (simp add: appendToBlocks_def)
next
  case (Cons x bs)
  show ?case
    by (cases x) (simp_all add: appendToBlocks_Cons Cons.IH)
qed

text \<open>
  C9. The append operations route every element of the list to the end of the
  accumulator of its variant: each accumulator keeps its prior contents and receives, in
  the order of the list, exactly the elements of its variant. An element that is none of
  the five variants (the nil interface) reaches no accumulator, and neither operation can
  fail.
\<close>

theorem append_routes_each_variant:
  "appendToBlocks bs b =
     b\<lparr>ActionBlocks := ActionBlocks b @ [p. ActionB p \<leftarrow> bs],
       ContextBlocks := ContextBlocks b @ [p. ContextB p \<leftarrow> bs],
       DividerBlocks := DividerBlocks b @ [p. DividerB p \<leftarrow> bs],
       ImageBlocks := ImageBlocks b @ [p. ImageB p \<leftarrow> bs],
       SectionBlocks := SectionBlocks b @ [p. SectionB p \<leftarrow> bs]\<rparr>
   \<and> appendToBlockElements es e =
     e\<lparr>ImageElements := ImageElements e @ [p. ImageBE p \<leftarrow> es],
       ButtonElements := ButtonElements e @ [p. ButtonBE p \<leftarrow> es],
       OverflowElements := OverflowElements e @ [p. OverflowBE p \<leftarrow> es],
       DatePickerElements := DatePickerElements e @ [p. DatePickerBE p \<leftarrow> es],
       SelectElements := SelectElements e @ [p. SelectBE p \<leftarrow> es]\<rparr>
   \<and> appendToBlocks (bs @ NilB # bs') b = appendToBlocks (bs @ bs') b
   \<and> appendToBlockElements (es @ NilBE # es') e = appendToBlockElements (es @ es') e"
  by (simp add: appendToBlocks_routes appendToBlockElements_routes)

section \<open>The decoding loops\<close>

lemma range_loop_append:
  "range_loop body (xs @ ys) b =
     (case range_loop body xs b of
        (Some err, b') \<Rightarrow> (Some err, b')
      | (None, b') \<Rightarrow> range_loop body ys b')"
  by (induction xs arbitrary: b) (auto split: sum.splits)

lemma range_loop_skips:
  assumes "\<And>c. body r c = Inr c"
  shows "range_loop body (pre @ r # post) b = range_loop body (pre @ post) b"
  by (simp add: range_loop_append assms split: prod.splits option.splits)

lemma unmarshal_map_wellformed:
  assumes "wellformed_object pf r"
  shows "\<exists>obj. unmarshal_map pf r = Inr obj \<and> type_field obj = elem_type r"
  using assms
  by (cases r) (simp_all add: wellformed_object_def unmarshal_map_def elem_type_def)

lemma unmarshal_map_fails:
  assumes "r \<noteq> JNull" and "\<not> wellformed_object pf r"
  shows "unmarshal_map pf r = Inl UnmarshalTypeError"
  using assms
  by (cases r) (simp_all add: wellformed_object_def unmarshal_map_def)

lemma elem_type_no_string:
  assumes "\<not> type_is_string r"
  shows "elem_type r = []"
  using assms
  by (cases r)
    (auto simp: type_is_string_def elem_type_def type_field_def split: option.splits json.splits)

subsection \<open>One iteration on a well-formed object\<close>

lemma BlockElements_step_wellformed:
  assumes "wellformed_object (parseFloat_ok J) r"
  shows "BlockElements_step J r b =
     (if elem_type r = ''image'' then
        (case unmarshal_ImageBlockElement J r of
           Inl err \<Rightarrow> Inl err
         | Inr x \<Rightarrow> Inr (b\<lparr>ImageElements := ImageElements b @ [Some x]\<rparr>))
      else if elem_type r = ''button'' then
        (case unmarshal_ButtonBlockElement J r of
           Inl err \<Rightarrow> Inl err
         | Inr x \<Rightarrow> Inr (b\<lparr>ButtonElements := ButtonElements b @ [Some x]\<rparr>))
      else if elem_type r = ''overflow'' then
        (case unmarshal_OverflowBlockElement J r of
           Inl err \<Rightarrow> Inl err
         | Inr x \<Rightarrow> Inr (b\<lparr>OverflowElements := OverflowElements b @ [Some x]\<rparr>))
      else if elem_type r = ''datepicker'' then
        (case unmarshal_DatePickerBlockElement J r of
           Inl err \<Rightarrow> Inl err
         | Inr x \<Rightarrow> Inr (b\<lparr>DatePickerElements := DatePickerElements b @ [Some x]\<rparr>))
      else if elem_type r = ''static_select'' then
        (case unmarshal_SelectBlockElement J r of
           Inl err \<Rightarrow> Inl err
         | Inr x \<Rightarrow> Inr (b\<lparr>SelectElements := SelectElements b @ [Some x]\<rparr>))
      else Inr b)"
proof -
  from unmarshal_map_wellformed [OF assms] obtain obj
    where "unmarshal_map (parseFloat_ok J) r = Inr obj" "type_field obj = elem_type r"
    by blast
  then show ?thesis
    by (simp add: BlockElements_step_def unmarshalBlockElement_def Let_def split: sum.splits)
qed

lemma ContextElements_step_wellformed:
  assumes "wellformed_object (parseFloat_ok J) r"
  shows "ContextElements_step J r e =
     (if elem_type r = PlainTextType \<or> elem_type r = MarkdownType then
        (case unmarshal_TextBlockObject J r of
           Inl err \<Rightarrow> Inl err
         | Inr x \<Rightarrow> Inr (e\<lparr>TextObjects := TextObjects e @ [Some x]\<rparr>))
      else if elem_type r = ''image'' then
        (case unmarshal_ImageBlockElement J r of
           Inl err \<Rightarrow> Inl err
         | Inr x \<Rightarrow> Inr (e\<lparr>ImageElements_c := ImageElements_c e @ [Some x]\<rparr>))
      else Inr e)"
proof -
  from unmarshal_map_wellformed [OF assms] obtain obj
    where "unmarshal_map (parseFloat_ok J) r = Inr obj" "type_field obj = elem_type r"
    by blast
  then show ?thesis
    by (simp add: ContextElements_step_def unmarshalBlockElement_def unmarshalBlockObject_def
        Let_def split: sum.splits)
qed

lemma Blocks_step_wellformed:
  assumes "wellformed_object (parseFloat_ok J) r"
  shows "Blocks_step J r b =
     (if elem_type r = ''actions'' then
        (case unmarshal_ActionBlock J r of
           Inl err \<Rightarrow> Inl err
         | Inr x \<Rightarrow> Inr (b\<lparr>ActionBlocks := ActionBlocks b @ [Some x]\<rparr>))
      else if elem_type r = ''context'' then
        (case unmarshal_ContextBlock J r of
           Inl err \<Rightarrow> Inl err
         | Inr x \<Rightarrow> Inr (b\<lparr>ContextBlocks := ContextBlocks b @ [Some x]\<rparr>))
      else if elem_type r = ''divider'' then
        (case unmarshal_DividerBlock J r of
           Inl err \<Rightarrow> Inl err
         | Inr x \<Rightarrow> Inr (b\<lparr>DividerBlocks := DividerBlocks b @ [Some x]\<rparr>))
      else if elem_type r = ''image'' then
        (case unmarshal_ImageBlock J r of
           Inl err \<Rightarrow> Inl err
         | Inr x \<Rightarrow> Inr (b\<lparr>ImageBlocks := ImageBlocks b @ [Some x]\<rparr>))
      else if elem_type r = ''section'' then
        (case unmarshal_SectionBlock J r of
           Inl err \<Rightarrow> Inl err
         | Inr x \<Rightarrow> Inr (b\<lparr>SectionBlocks := SectionBlocks b @ [Some x]\<rparr>))
      else Inr b)"
proof -
  from unmarshal_map_wellformed [OF assms] obtain obj
    where "unmarshal_map (parseFloat_ok J) r = Inr obj" "type_field obj = elem_type r"
    by blast
  then show ?thesis
    by (simp add: Blocks_step_def unmarshalBlock_def Let_def split: sum.splits)
qed

subsection \<open>A whole array of well-formed objects whose recognized elements decode\<close>

lemma BlockElements_loop_ok:
  assumes "list_all (wellformed_object (parseFloat_ok J)) rs"
    and "map (unmarshal_ImageBlockElement J) (of_type ''image'' rs) = map Inr is"
    and "map (unmarshal_ButtonBlockElement J) (of_type ''button'' rs) = map Inr bs"
    and "map (unmarshal_OverflowBlockElement J) (of_type ''overflow'' rs) = map Inr os"
    and "map (unmarshal_DatePickerBlockElement J) (of_type ''datepicker'' rs) = map Inr ds"
    and "map (unmarshal_SelectBlockElement J) (of_type ''static_select'' rs) = map Inr ss"
  shows "range_loop (BlockElements_step J) rs b =
     (None, b\<lparr>ImageElements := ImageElements b @ map Some is,
              ButtonElements := ButtonElements b @ map Some bs,
              OverflowElements := OverflowElements b @ map Some os,
              DatePickerElements := DatePickerElements b @ map Some ds,
              SelectElements := SelectElements b @ map Some ss\<rparr>)"
  using assms
proof (induction rs arbitrary: b "is" bs os ds ss)
  case Nil
  then show ?case by (simp add: of_type_def)
next
  case (Cons r rs)
  then show ?case
    by (auto simp: of_type_def BlockElements_step_wellformed)
qed

lemma ContextElements_loop_ok:
  assumes "list_all (wellformed_object (parseFloat_ok J)) rs"
    and "map (unmarshal_TextBlockObject J) (text_typed rs) = map Inr ts"
    and "map (unmarshal_ImageBlockElement J) (of_type ''image'' rs) = map Inr is"
  shows "range_loop (ContextElements_step J) rs e =
     (None, e\<lparr>ImageElements_c := ImageElements_c e @ map Some is,
              TextObjects := TextObjects e @ map Some ts\<rparr>)"
  using assms
proof (induction rs arbitrary: e "is" ts)
  case Nil
  then show ?case by (simp add: of_type_def text_typed_def)
next
  case (Cons r rs)
  then show ?case
    by (auto simp: of_type_def text_typed_def ContextElements_step_wellformed
        PlainTextType_def MarkdownType_def)
qed

lemma Blocks_loop_ok:
  assumes "list_all (wellformed_object (parseFloat_ok J)) rs"
    and "map (unmarshal_ActionBlock J) (of_type ''actions'' rs) = map Inr as"
    and "map (unmarshal_ContextBlock J) (of_type ''context'' rs) = map Inr cs"
    and "map (unmarshal_DividerBlock J) (of_type ''divider'' rs) = map Inr ds"
    and "map (unmarshal_ImageBlock J) (of_type ''image'' rs) = map Inr is"
    and "map (unmarshal_SectionBlock J) (of_type ''section'' rs) = map Inr ss"
  shows "range_loop (Blocks_step J) rs b =
     (None, b\<lparr>ActionBlocks := ActionBlocks b @ map Some as,
              ContextBlocks := ContextBlocks b @ map Some cs,
              DividerBlocks := DividerBlocks b @ map Some ds,
              ImageBlocks := ImageBlocks b @ map Some is,
              SectionBlocks := SectionBlocks b @ map Some ss\<rparr>)"
  using assms
proof (induction rs arbitrary: b as cs ds "is" ss)
  case Nil
  then show ?case by (simp add: of_type_def)
next
  case (Cons r rs)
  then show ?case
    by (auto simp: of_type_def Blocks_step_wellformed)
qed

lemma recognized_count5:
  assumes "distinct [t1, t2, t3, t4, t5]"
  shows "length (of_type t1 rs) + length (of_type t2 rs) + length (of_type t3 rs)
         + length (of_type t4 rs) + length (of_type t5 rs)
       = length (recognized [t1, t2, t3, t4, t5] rs)"
  using assms by (induction rs) (auto simp: of_type_def recognized_def)

lemma recognized_count_context:
  "length (text_typed rs) + length (of_type ''image'' rs) = length (recognized context_types rs)"
  by (induction rs)
    (auto simp: of_type_def text_typed_def recognized_def context_types_def
      PlainTextType_def MarkdownType_def)

section \<open>Concrete runs\<close>

lemmas run_defs =
  unmarshal_RawMessages_def unmarshal_RawMessage_def unmarshal_map_def type_field_def
  Blocks_UnmarshalJSON_def Blocks_step_def unmarshalBlock_def
  BlockElements_UnmarshalJSON_def BlockElements_step_def unmarshalBlockElement_def
  ContextElements_UnmarshalJSON_def ContextElements_step_def unmarshalBlockObject_def
  Accessory_UnmarshalJSON_def PlainTextType_def MarkdownType_def
  doc_json_def doc_block_json_def typed_def
  empty_Blocks_def empty_BlockElements_def empty_ContextElements_def empty_Accessory_def
  wellformed_object_def elem_type_def of_type_def text_typed_def is_array_def
  type_is_string_def decodes_to_def
  is_object_def strict_struct_def strict_json_def strict_block_json_def

section \<open>The outer document\<close>

lemma unmarshal_RawMessages_other:
  assumes "\<not> is_array j" and "j \<noteq> JNull"
  shows "unmarshal_RawMessages (Some j) = Inl UnmarshalTypeError"
  using assms by (cases j) (simp_all add: unmarshal_RawMessages_def is_array_def)

lemma unmarshal_RawMessages_null: "unmarshal_RawMessages (Some JNull) = Inr []"
  by (simp add: unmarshal_RawMessages_def)

text \<open>
  C8, as the code has it. An outer document that is neither an array nor \<^verbatim>\<open>null\<close> makes
  each of the three array decoders return an error at once, the receiver untouched; so
  does a buffer that is no JSON text. The outer document \<^verbatim>\<open>null\<close> is accepted: the call
  returns no error and decodes no element.
\<close>

theorem outer_document_not_an_array:
  "(\<not> is_array j \<and> j \<noteq> JNull \<longrightarrow>
      Blocks_UnmarshalJSON JB (Some j) b = (Some UnmarshalTypeError, b)
      \<and> BlockElements_UnmarshalJSON J (Some j) e = (Some UnmarshalTypeError, e)
      \<and> ContextElements_UnmarshalJSON J (Some j) c = (Some UnmarshalTypeError, c))
   \<and> Blocks_UnmarshalJSON JB None b = (Some SyntaxError, b)
   \<and> BlockElements_UnmarshalJSON J None e = (Some SyntaxError, e)
   \<and> ContextElements_UnmarshalJSON J None c = (Some SyntaxError, c)
   \<and> Blocks_UnmarshalJSON JB (Some JNull) b = (None, b)
   \<and> BlockElements_UnmarshalJSON J (Some JNull) e = (None, e)
   \<and> ContextElements_UnmarshalJSON J (Some JNull) c = (None, c)"
  by (simp add: Blocks_UnmarshalJSON_def BlockElements_UnmarshalJSON_def
      ContextElements_UnmarshalJSON_def unmarshal_RawMessages_other
      unmarshal_RawMessages_null)
    (simp add: unmarshal_RawMessages_def)

theorem outer_document_not_an_array_witness:
  "\<not> is_array (typed ''section'') \<and> typed ''section'' \<noteq> JNull
   \<and> Blocks_UnmarshalJSON doc_block_json (Some (typed ''section'')) empty_Blocks
       = (Some UnmarshalTypeError, empty_Blocks)
   \<and> BlockElements_UnmarshalJSON doc_json (Some (typed ''section'')) empty_BlockElements
       = (Some UnmarshalTypeError, empty_BlockElements)
   \<and> ContextElements_UnmarshalJSON doc_json (Some (typed ''section'')) empty_ContextElements
       = (Some UnmarshalTypeError, empty_ContextElements)"
proof -
  have h: "\<not> is_array (typed ''section'') \<and> typed ''section'' \<noteq> JNull"
    by (simp add: is_array_def typed_def)
  with outer_document_not_an_array
    [where j = "typed ''section''" and JB = doc_block_json and J = doc_json
       and b = empty_Blocks and e = empty_BlockElements and c = empty_ContextElements]
  show ?thesis by blast
qed

text \<open>The outer document \<^verbatim>\<open>null\<close> is no array, and no decoder returns an error for it.\<close>

theorem outer_null_is_accepted:
  "\<not> is_array JNull
   \<and> Blocks_UnmarshalJSON doc_block_json (Some JNull) empty_Blocks = (None, empty_Blocks)
   \<and> BlockElements_UnmarshalJSON doc_json (Some JNull) empty_BlockElements
       = (None, empty_BlockElements)
   \<and> ContextElements_UnmarshalJSON doc_json (Some JNull) empty_ContextElements
       = (None, empty_ContextElements)"
  by (simp add: run_defs)

section \<open>Elements without a string discriminator\<close>

lemma BlockElements_step_no_type:
  assumes "wellformed_object (parseFloat_ok J) r" and "\<not> type_is_string r"
  shows "BlockElements_step J r b = Inr b"
  using assms by (simp add: BlockElements_step_wellformed elem_type_no_string)

lemma ContextElements_step_no_type:
  assumes "wellformed_object (parseFloat_ok J) r" and "\<not> type_is_string r"
  shows "ContextElements_step J r e = Inr e"
  using assms
  by (simp add: ContextElements_step_wellformed elem_type_no_string PlainTextType_def
      MarkdownType_def)

lemma Blocks_step_no_type:
  assumes "wellformed_object (parseFloat_ok J) r" and "\<not> type_is_string r"
  shows "Blocks_step J r b = Inr b"
  using assms by (simp add: Blocks_step_wellformed elem_type_no_string)

lemma Accessory_no_type:
  assumes "wellformed_object (parseFloat_ok J) r" and "\<not> type_is_string r"
  shows "Accessory_UnmarshalJSON J (Some r) a = (None, a)"
proof -
  from unmarshal_map_wellformed [OF assms(1)] obtain obj
    where "unmarshal_map (parseFloat_ok J) r = Inr obj" "type_field obj = elem_type r"
    by blast
  with elem_type_no_string [OF assms(2)] show ?thesis
    by (simp add: Accessory_UnmarshalJSON_def unmarshal_RawMessage_def Let_def)
qed

text \<open>
  C10, as the code has it. A well-formed object whose member \<^verbatim>\<open>type\<close> is absent or not a string has the
  empty discriminator, which no decoder has a case for: each array decoder behaves on
  an array with such an element as on the array without it (no error from it, no
  accumulator changed by it), and the Accessory decoder returns no error and leaves every
  slot as it was.
\<close>

theorem missing_type_is_skipped:
  "(wellformed_object (parseFloat_ok JB) r \<and> \<not> type_is_string r \<longrightarrow>
      Blocks_UnmarshalJSON JB (Some (JArray (pre @ r # post))) b
        = Blocks_UnmarshalJSON JB (Some (JArray (pre @ post))) b)
   \<and> (wellformed_object (parseFloat_ok J) r \<and> \<not> type_is_string r \<longrightarrow>
      BlockElements_UnmarshalJSON J (Some (JArray (pre @ r # post))) e
        = BlockElements_UnmarshalJSON J (Some (JArray (pre @ post))) e
      \<and> ContextElements_UnmarshalJSON J (Some (JArray (pre @ r # post))) c
        = ContextElements_UnmarshalJSON J (Some (JArray (pre @ post))) c
      \<and> Accessory_UnmarshalJSON J (Some r) a = (None, a))"
  by (simp add: Blocks_UnmarshalJSON_def BlockElements_UnmarshalJSON_def
      ContextElements_UnmarshalJSON_def unmarshal_RawMessages_def Accessory_no_type
      range_loop_skips Blocks_step_no_type BlockElements_step_no_type
      ContextElements_step_no_type)

theorem missing_type_is_skipped_witness:
  "wellformed_object (parseFloat_ok doc_block_json) (JObject [(''type'', JNumber ''1'')])
   \<and> wellformed_object (parseFloat_ok doc_json) (JObject [(''type'', JNumber ''1'')])
   \<and> \<not> type_is_string (JObject [(''type'', JNumber ''1'')])
   \<and> Blocks_UnmarshalJSON doc_block_json
        (Some (JArray ([typed ''divider''] @ JObject [(''type'', JNumber ''1'')] # [typed ''image''])))
        empty_Blocks
      = (None, empty_Blocks\<lparr>DividerBlocks := [Some (typed ''divider'')],
                            ImageBlocks := [Some (typed ''image'')]\<rparr>)
   \<and> BlockElements_UnmarshalJSON doc_json
        (Some (JArray ([typed ''button''] @ JObject [(''type'', JNumber ''1'')] # [typed ''image''])))
        empty_BlockElements
      = (None, empty_BlockElements\<lparr>ImageElements := [Some (typed ''image'')],
                                   ButtonElements := [Some (typed ''button'')]\<rparr>)
   \<and> ContextElements_UnmarshalJSON doc_json
        (Some (JArray ([typed ''mrkdwn''] @ JObject [(''type'', JNumber ''1'')] # [typed ''image''])))
        empty_ContextElements
      = (None, empty_ContextElements\<lparr>ImageElements_c := [Some (typed ''image'')],
                                     TextObjects := [Some (typed ''mrkdwn'')]\<rparr>)
   \<and> Accessory_UnmarshalJSON doc_json (Some (JObject [(''type'', JNumber ''1'')])) empty_Accessory
      = (None, empty_Accessory)"
proof -
  let ?r = "JObject [(''type'', JNumber ''1'')]"
  have h: "wellformed_object (parseFloat_ok doc_block_json) ?r"
    "wellformed_object (parseFloat_ok doc_json) ?r" "\<not> type_is_string ?r"
    by (simp_all add: run_defs)
  have b: "Blocks_UnmarshalJSON doc_block_json
        (Some (JArray ([typed ''divider''] @ [typed ''image'']))) empty_Blocks
      = (None, empty_Blocks\<lparr>DividerBlocks := [Some (typed ''divider'')],
                            ImageBlocks := [Some (typed ''image'')]\<rparr>)"
    by (simp add: run_defs)
  have e: "BlockElements_UnmarshalJSON doc_json
        (Some (JArray ([typed ''button''] @ [typed ''image'']))) empty_BlockElements
      = (None, empty_BlockElements\<lparr>ImageElements := [Some (typed ''image'')],
                                   ButtonElements := [Some (typed ''button'')]\<rparr>)"
    by (simp add: run_defs)
  have c: "ContextElements_UnmarshalJSON doc_json
        (Some (JArray ([typed ''mrkdwn''] @ [typed ''image'']))) empty_ContextElements
      = (None, empty_ContextElements\<lparr>ImageElements_c := [Some (typed ''image'')],
                                     TextObjects := [Some (typed ''mrkdwn'')]\<rparr>)"
    by (simp add: run_defs)
  from h b e c
    missing_type_is_skipped
      [where r = ?r and JB = doc_block_json and J = doc_json
         and pre = "[typed ''divider'']" and post = "[typed ''image'']" and b = empty_Blocks]
    missing_type_is_skipped
      [where r = ?r and JB = doc_block_json and J = doc_json
         and pre = "[typed ''button'']" and post = "[typed ''image'']"
         and e = empty_BlockElements and a = empty_Accessory]
    missing_type_is_skipped
      [where r = ?r and JB = doc_block_json and J = doc_json
         and pre = "[typed ''mrkdwn'']" and post = "[typed ''image'']"
         and c = empty_ContextElements]
  show ?thesis by presburger
qed

text \<open>
  An object without a member \<^verbatim>\<open>type\<close> that holds a number out of the range of
  \<^verbatim>\<open>float64\<close> is not skipped: decoding it into \<^verbatim>\<open>map[string]interface{}\<close> fails, and
  the whole call returns that error.
\<close>

theorem missing_type_with_huge_number_fails:
  "is_object (JObject [(''x'', JNumber ''1e999'')])
   \<and> \<not> type_is_string (JObject [(''x'', JNumber ''1e999'')])
   \<and> Blocks_UnmarshalJSON strict_block_json
        (Some (JArray [typed ''divider'', JObject [(''x'', JNumber ''1e999'')], typed ''image'']))
        empty_Blocks
      = (Some UnmarshalTypeError, empty_Blocks\<lparr>DividerBlocks := [Some (typed ''divider'')]\<rparr>)
   \<and> BlockElements_UnmarshalJSON strict_json
        (Some (JArray [typed ''button'', JObject [(''x'', JNumber ''1e999'')], typed ''image'']))
        empty_BlockElements
      = (Some UnmarshalTypeError,
         empty_BlockElements\<lparr>ButtonElements := [Some (typed ''button'')]\<rparr>)
   \<and> ContextElements_UnmarshalJSON strict_json
        (Some (JArray [typed ''mrkdwn'', JObject [(''x'', JNumber ''1e999'')], typed ''image'']))
        empty_ContextElements
      = (Some UnmarshalTypeError,
         empty_ContextElements\<lparr>TextObjects := [Some (typed ''mrkdwn'')]\<rparr>)
   \<and> Accessory_UnmarshalJSON strict_json (Some (JObject [(''x'', JNumber ''1e999'')]))
        empty_Accessory
      = (Some UnmarshalTypeError, empty_Accessory)"
  by (simp add: run_defs)

section \<open>Errors inside the array\<close>

lemma Blocks_step_malformed:
  assumes "malformed_Block J r"
  shows "\<exists>err. Blocks_step J r b = Inl err"
proof (cases "wellformed_object (parseFloat_ok J) r")
  case True
  with assms have "r \<noteq> JNull"
    by (auto simp: wellformed_object_def)
  with assms True show ?thesis
    by (auto simp: malformed_Block_def Blocks_step_wellformed isl_def)
next
  case False
  have "elem_type JNull = []"
    by (simp add: elem_type_def)
  with assms False have "r \<noteq> JNull"
    by (auto simp: malformed_Block_def)
  with False show ?thesis
    by (simp add: Blocks_step_def unmarshal_map_fails)
qed

lemma BlockElements_step_malformed:
  assumes "malformed_BlockElement J r"
  shows "\<exists>err. BlockElements_step J r b = Inl err"
proof (cases "wellformed_object (parseFloat_ok J) r")
  case True
  with assms show ?thesis
    by (auto simp: malformed_BlockElement_def BlockElements_step_wellformed isl_def)
next
  case False
  have "elem_type JNull = []"
    by (simp add: elem_type_def)
  with assms False have "r \<noteq> JNull"
    by (auto simp: malformed_BlockElement_def)
  with False show ?thesis
    by (simp add: BlockElements_step_def unmarshal_map_fails)
qed

lemma ContextElements_step_malformed:
  assumes "malformed_ContextElement J r"
  shows "\<exists>err. ContextElements_step J r e = Inl err"
proof (cases "wellformed_object (parseFloat_ok J) r")
  case True
  with assms show ?thesis
    by (auto simp: malformed_ContextElement_def ContextElements_step_wellformed isl_def
        PlainTextType_def MarkdownType_def)
next
  case False
  have "elem_type JNull = []"
    by (simp add: elem_type_def)
  with assms False have "r \<noteq> JNull"
    by (auto simp: malformed_ContextElement_def PlainTextType_def MarkdownType_def)
  with False show ?thesis
    by (simp add: ContextElements_step_def unmarshal_map_fails)
qed

lemma Blocks_step_null: "Blocks_step J JNull b = Inr b"
  by (simp add: Blocks_step_def unmarshal_map_def type_field_def)

lemma BlockElements_step_null: "BlockElements_step J JNull b = Inr b"
  by (simp add: BlockElements_step_def unmarshal_map_def type_field_def)

lemma ContextElements_step_null: "ContextElements_step J JNull e = Inr e"
  by (simp add: ContextElements_step_def unmarshal_map_def type_field_def PlainTextType_def
      MarkdownType_def)

lemma range_loop_stops_ex:
  assumes "range_loop body pre b = (None, b')" and "\<exists>err. body bad b' = Inl err"
  shows "\<exists>err. range_loop body (pre @ bad # post) b = (Some err, b')"
  using assms by (auto simp: range_loop_append)

lemma range_loop_fails:
  assumes "\<And>r c. bad r \<Longrightarrow> \<exists>err. body r c = Inl err" and "list_ex bad rs"
  shows "fst (range_loop body rs b) \<noteq> None"
  using assms(2)
proof (induction rs arbitrary: b)
  case Nil
  then show ?case by simp
next
  case (Cons r rs)
  show ?case
  proof (cases "body r b")
    case (Inl err)
    then show ?thesis by simp
  next
    case (Inr b')
    with assms(1) [of r b] have "\<not> bad r" by auto
    with Cons.prems have "list_ex bad rs" by simp
    with Cons.IH [of b'] Inr show ?thesis by simp
  qed
qed

text \<open>
  C1, as the code has it. Let an array hold a malformed element (a document that is
  neither \<^verbatim>\<open>null\<close> nor a well-formed object, or an element of a recognized variant that
  its struct decoder rejects), and let the elements before it decode without error,
  leaving the receiver \<open>b'\<close>. Then the call returns an error and leaves the receiver at
  \<open>b'\<close>: no element at or after the malformed one reaches an accumulator, while the
  recognized elements before it stay appended. Nothing is rolled back. Any array that
  holds a malformed element makes the call return an error. An element \<^verbatim>\<open>null\<close> is
  skipped by each of the three decoders: the call behaves on an array with such an
  element as on the array without it.
\<close>

theorem decode_error_stops_at_malformed:
  "(Blocks_UnmarshalJSON JB (Some (JArray pre)) b = (None, b') \<and> malformed_Block JB bad \<longrightarrow>
      (\<exists>err. Blocks_UnmarshalJSON JB (Some (JArray (pre @ bad # post))) b = (Some err, b')))
   \<and> (BlockElements_UnmarshalJSON J (Some (JArray pre)) e = (None, e')
       \<and> malformed_BlockElement J bad \<longrightarrow>
      (\<exists>err. BlockElements_UnmarshalJSON J (Some (JArray (pre @ bad # post))) e = (Some err, e')))
   \<and> (ContextElements_UnmarshalJSON J (Some (JArray pre)) c = (None, c')
       \<and> malformed_ContextElement J bad \<longrightarrow>
      (\<exists>err. ContextElements_UnmarshalJSON J (Some (JArray (pre @ bad # post))) c = (Some err, c')))
   \<and> (list_ex (malformed_Block JB) rs \<longrightarrow>
        fst (Blocks_UnmarshalJSON JB (Some (JArray rs)) b) \<noteq> None)
   \<and> (list_ex (malformed_BlockElement J) rs \<longrightarrow>
        fst (BlockElements_UnmarshalJSON J (Some (JArray rs)) e) \<noteq> None)
   \<and> (list_ex (malformed_ContextElement J) rs \<longrightarrow>
        fst (ContextElements_UnmarshalJSON J (Some (JArray rs)) c) \<noteq> None)
   \<and> Blocks_UnmarshalJSON JB (Some (JArray (pre @ JNull # post))) b
       = Blocks_UnmarshalJSON JB (Some (JArray (pre @ post))) b
   \<and> BlockElements_UnmarshalJSON J (Some (JArray (pre @ JNull # post))) e
       = BlockElements_UnmarshalJSON J (Some (JArray (pre @ post))) e
   \<and> ContextElements_UnmarshalJSON J (Some (JArray (pre @ JNull # post))) c
       = ContextElements_UnmarshalJSON J (Some (JArray (pre @ post))) c"
proof -
  have "list_ex (malformed_Block JB) rs \<Longrightarrow> fst (range_loop (Blocks_step JB) rs b) \<noteq> None"
    by (rule range_loop_fails [where bad = "malformed_Block JB"])
      (simp_all add: Blocks_step_malformed)
  moreover have "list_ex (malformed_BlockElement J) rs
      \<Longrightarrow> fst (range_loop (BlockElements_step J) rs e) \<noteq> None"
    by (rule range_loop_fails [where bad = "malformed_BlockElement J"])
      (simp_all add: BlockElements_step_malformed)
  moreover have "list_ex (malformed_ContextElement J) rs
      \<Longrightarrow> fst (range_loop (ContextElements_step J) rs c) \<noteq> None"
    by (rule range_loop_fails [where bad = "malformed_ContextElement J"])
      (simp_all add: ContextElements_step_malformed)
  ultimately show ?thesis
    by (simp add: Blocks_UnmarshalJSON_def BlockElements_UnmarshalJSON_def
        ContextElements_UnmarshalJSON_def unmarshal_RawMessages_def range_loop_stops_ex
        Blocks_step_malformed BlockElements_step_malformed ContextElements_step_malformed
        range_loop_skips Blocks_step_null BlockElements_step_null ContextElements_step_null)
qed

theorem decode_error_stops_at_malformed_witness:
  "Blocks_UnmarshalJSON doc_block_json (Some (JArray [typed ''divider''])) empty_Blocks
     = (None, empty_Blocks\<lparr>DividerBlocks := [Some (typed ''divider'')]\<rparr>)
   \<and> malformed_Block doc_block_json (JNumber ''5'')
   \<and> (\<exists>err. Blocks_UnmarshalJSON doc_block_json
         (Some (JArray ([typed ''divider''] @ JNumber ''5'' # [typed ''image''])))
         empty_Blocks
       = (Some err, empty_Blocks\<lparr>DividerBlocks := [Some (typed ''divider'')]\<rparr>))
   \<and> BlockElements_UnmarshalJSON doc_json (Some (JArray [typed ''button''])) empty_BlockElements
     = (None, empty_BlockElements\<lparr>ButtonElements := [Some (typed ''button'')]\<rparr>)
   \<and> malformed_BlockElement doc_json (JString ''x'')
   \<and> (\<exists>err. BlockElements_UnmarshalJSON doc_json
         (Some (JArray ([typed ''button''] @ JString ''x'' # [typed ''image''])))
         empty_BlockElements
       = (Some err, empty_BlockElements\<lparr>ButtonElements := [Some (typed ''button'')]\<rparr>))
   \<and> ContextElements_UnmarshalJSON doc_json (Some (JArray [typed ''mrkdwn''])) empty_ContextElements
     = (None, empty_ContextElements\<lparr>TextObjects := [Some (typed ''mrkdwn'')]\<rparr>)
   \<and> malformed_ContextElement doc_json (JArray [])
   \<and> (\<exists>err. ContextElements_UnmarshalJSON doc_json
         (Some (JArray ([typed ''mrkdwn''] @ JArray [] # [typed ''image''])))
         empty_ContextElements
       = (Some err, empty_ContextElements\<lparr>TextObjects := [Some (typed ''mrkdwn'')]\<rparr>))
   \<and> list_ex (malformed_Block doc_block_json) [typed ''divider'', JNumber ''5'', typed ''image'']
   \<and> fst (Blocks_UnmarshalJSON doc_block_json
         (Some (JArray [typed ''divider'', JNumber ''5'', typed ''image''])) empty_Blocks)
       \<noteq> None
   \<and> list_ex (malformed_BlockElement doc_json) [typed ''button'', JString ''x'', typed ''image'']
   \<and> fst (BlockElements_UnmarshalJSON doc_json
         (Some (JArray [typed ''button'', JString ''x'', typed ''image''])) empty_BlockElements)
       \<noteq> None
   \<and> list_ex (malformed_ContextElement doc_json) [typed ''mrkdwn'', JArray [], typed ''image'']
   \<and> fst (ContextElements_UnmarshalJSON doc_json
         (Some (JArray [typed ''mrkdwn'', JArray [], typed ''image''])) empty_ContextElements)
       \<noteq> None"
proof -
  have lb: "list_ex (malformed_Block doc_block_json)
      [typed ''divider'', JNumber ''5'', typed ''image'']"
    by (simp add: run_defs malformed_Block_def)
  have le: "list_ex (malformed_BlockElement doc_json)
      [typed ''button'', JString ''x'', typed ''image'']"
    by (simp add: run_defs malformed_BlockElement_def)
  have lc: "list_ex (malformed_ContextElement doc_json)
      [typed ''mrkdwn'', JArray [], typed ''image'']"
    by (simp add: run_defs malformed_ContextElement_def)
  note fb = decode_error_stops_at_malformed
      [where JB = doc_block_json and J = doc_json and b = empty_Blocks
         and rs = "[typed ''divider'', JNumber ''5'', typed ''image'']",
       THEN conjunct2, THEN conjunct2, THEN conjunct2, THEN conjunct1, THEN mp, OF lb]
  note fe = decode_error_stops_at_malformed
      [where JB = doc_block_json and J = doc_json and e = empty_BlockElements
         and rs = "[typed ''button'', JString ''x'', typed ''image'']",
       THEN conjunct2, THEN conjunct2, THEN conjunct2, THEN conjunct2, THEN conjunct1,
       THEN mp, OF le]
  note fc = decode_error_stops_at_malformed
      [where JB = doc_block_json and J = doc_json and c = empty_ContextElements
         and rs = "[typed ''mrkdwn'', JArray [], typed ''image'']",
       THEN conjunct2, THEN conjunct2, THEN conjunct2, THEN conjunct2, THEN conjunct2,
       THEN conjunct1, THEN mp, OF lc]
  have hb: "Blocks_UnmarshalJSON doc_block_json (Some (JArray [typed ''divider''])) empty_Blocks
     = (None, empty_Blocks\<lparr>DividerBlocks := [Some (typed ''divider'')]\<rparr>)"
    "malformed_Block doc_block_json (JNumber ''5'')"
    by (simp_all add: run_defs malformed_Block_def)
  have he: "BlockElements_UnmarshalJSON doc_json (Some (JArray [typed ''button''])) empty_BlockElements
     = (None, empty_BlockElements\<lparr>ButtonElements := [Some (typed ''button'')]\<rparr>)"
    "malformed_BlockElement doc_json (JString ''x'')"
    by (simp_all add: run_defs malformed_BlockElement_def)
  have hc: "ContextElements_UnmarshalJSON doc_json (Some (JArray [typed ''mrkdwn''])) empty_ContextElements
     = (None, empty_ContextElements\<lparr>TextObjects := [Some (typed ''mrkdwn'')]\<rparr>)"
    "malformed_ContextElement doc_json (JArray [])"
    by (simp_all add: run_defs malformed_ContextElement_def)
  note tb = decode_error_stops_at_malformed
      [where JB = doc_block_json and J = doc_json and bad = "JNumber ''5''"
         and pre = "[typed ''divider'']" and post = "[typed ''image'']" and b = empty_Blocks
         and b' = "empty_Blocks\<lparr>DividerBlocks := [Some (typed ''divider'')]\<rparr>",
       THEN conjunct1, THEN mp, OF conjI [OF hb]]
  note te = decode_error_stops_at_malformed
      [where JB = doc_block_json and J = doc_json and bad = "JString ''x''"
         and pre = "[typed ''button'']" and post = "[typed ''image'']"
         and e = empty_BlockElements
         and e' = "empty_BlockElements\<lparr>ButtonElements := [Some (typed ''button'')]\<rparr>",
       THEN conjunct2, THEN conjunct1, THEN mp, OF conjI [OF he]]
  note tc = decode_error_stops_at_malformed
      [where JB = doc_block_json and J = doc_json and bad = "JArray []"
         and pre = "[typed ''mrkdwn'']" and post = "[typed ''image'']"
         and c = empty_ContextElements
         and c' = "empty_ContextElements\<lparr>TextObjects := [Some (typed ''mrkdwn'')]\<rparr>",
       THEN conjunct2, THEN conjunct2, THEN conjunct1, THEN mp, OF conjI [OF hc]]
  from hb he hc tb te tc lb fb le fe lc fc show ?thesis
    by (intro conjI) assumption+
qed

text \<open>
  An element \<^verbatim>\<open>null\<close> is no object and yet raises no error; and when an error is
  returned, the elements decoded before it are in the receiver.
\<close>

theorem decode_error_leaves_partial_results:
  "Blocks_UnmarshalJSON doc_block_json (Some (JArray [JNull, typed ''image''])) empty_Blocks
     = (None, empty_Blocks\<lparr>ImageBlocks := [Some (typed ''image'')]\<rparr>)
   \<and> Blocks_UnmarshalJSON doc_block_json
        (Some (JArray [typed ''divider'', JNumber ''5'', typed ''image''])) empty_Blocks
     = (Some UnmarshalTypeError, empty_Blocks\<lparr>DividerBlocks := [Some (typed ''divider'')]\<rparr>)
   \<and> BlockElements_UnmarshalJSON doc_json
        (Some (JArray [typed ''button'', JNumber ''5'', typed ''image''])) empty_BlockElements
     = (Some UnmarshalTypeError,
        empty_BlockElements\<lparr>ButtonElements := [Some (typed ''button'')]\<rparr>)"
  by (simp add: run_defs)

section \<open>Elements of an unrecognized variant\<close>

lemma decodes_to_length: "decodes_to dec rs xs \<Longrightarrow> length xs = length rs"
  by (auto simp: decodes_to_def dest: map_eq_imp_length_eq)

lemma Blocks_decode_ok:
  assumes "list_all (wellformed_object (parseFloat_ok JB)) rs"
    and "decodes_to (unmarshal_ActionBlock JB) (of_type ''actions'' rs) acts"
    and "decodes_to (unmarshal_ContextBlock JB) (of_type ''context'' rs) ctxs"
    and "decodes_to (unmarshal_DividerBlock JB) (of_type ''divider'' rs) divs"
    and "decodes_to (unmarshal_ImageBlock JB) (of_type ''image'' rs) imgs"
    and "decodes_to (unmarshal_SectionBlock JB) (of_type ''section'' rs) secs"
  shows "Blocks_UnmarshalJSON JB (Some (JArray rs)) b =
     (None, b\<lparr>ActionBlocks := ActionBlocks b @ map Some acts,
              ContextBlocks := ContextBlocks b @ map Some ctxs,
              DividerBlocks := DividerBlocks b @ map Some divs,
              ImageBlocks := ImageBlocks b @ map Some imgs,
              SectionBlocks := SectionBlocks b @ map Some secs\<rparr>)"
    and "length acts + length ctxs + length divs + length imgs + length secs
         = length (recognized block_types rs)"
proof -
  show "Blocks_UnmarshalJSON JB (Some (JArray rs)) b =
     (None, b\<lparr>ActionBlocks := ActionBlocks b @ map Some acts,
              ContextBlocks := ContextBlocks b @ map Some ctxs,
              DividerBlocks := DividerBlocks b @ map Some divs,
              ImageBlocks := ImageBlocks b @ map Some imgs,
              SectionBlocks := SectionBlocks b @ map Some secs\<rparr>)"
    using assms
    by (simp add: Blocks_UnmarshalJSON_def unmarshal_RawMessages_def decodes_to_def
        Blocks_loop_ok)
  have "distinct [''actions'', ''context'', ''divider'', ''image'', ''section'']"
    by simp
  from recognized_count5 [OF this, of rs] assms(2-6) [THEN decodes_to_length]
  show "length acts + length ctxs + length divs + length imgs + length secs
         = length (recognized block_types rs)"
    by (simp add: block_types_def)
qed

lemma BlockElements_decode_ok:
  assumes "list_all (wellformed_object (parseFloat_ok J)) rs"
    and "decodes_to (unmarshal_ImageBlockElement J) (of_type ''image'' rs) imgs"
    and "decodes_to (unmarshal_ButtonBlockElement J) (of_type ''button'' rs) btns"
    and "decodes_to (unmarshal_OverflowBlockElement J) (of_type ''overflow'' rs) ovfs"
    and "decodes_to (unmarshal_DatePickerBlockElement J) (of_type ''datepicker'' rs) dps"
    and "decodes_to (unmarshal_SelectBlockElement J) (of_type ''static_select'' rs) sels"
  shows "BlockElements_UnmarshalJSON J (Some (JArray rs)) e =
     (None, e\<lparr>ImageElements := ImageElements e @ map Some imgs,
              ButtonElements := ButtonElements e @ map Some btns,
              OverflowElements := OverflowElements e @ map Some ovfs,
              DatePickerElements := DatePickerElements e @ map Some dps,
              SelectElements := SelectElements e @ map Some sels\<rparr>)"
    and "length imgs + length btns + length ovfs + length dps + length sels
         = length (recognized element_types rs)"
proof -
  show "BlockElements_UnmarshalJSON J (Some (JArray rs)) e =
     (None, e\<lparr>ImageElements := ImageElements e @ map Some imgs,
              ButtonElements := ButtonElements e @ map Some btns,
              OverflowElements := OverflowElements e @ map Some ovfs,
              DatePickerElements := DatePickerElements e @ map Some dps,
              SelectElements := SelectElements e @ map Some sels\<rparr>)"
    using assms
    by (simp add: BlockElements_UnmarshalJSON_def unmarshal_RawMessages_def decodes_to_def
        BlockElements_loop_ok)
  have "distinct [''image'', ''button'', ''overflow'', ''datepicker'', ''static_select'']"
    by simp
  from recognized_count5 [OF this, of rs] assms(2-6) [THEN decodes_to_length]
  show "length imgs + length btns + length ovfs + length dps + length sels
         = length (recognized element_types rs)"
    by (simp add: element_types_def)
qed

lemma ContextElements_decode_ok:
  assumes "list_all (wellformed_object (parseFloat_ok J)) rs"
    and "decodes_to (unmarshal_TextBlockObject J) (text_typed rs) txts"
    and "decodes_to (unmarshal_ImageBlockElement J) (of_type ''image'' rs) imgs"
  shows "ContextElements_UnmarshalJSON J (Some (JArray rs)) c =
     (None, c\<lparr>ImageElements_c := ImageElements_c c @ map Some imgs,
              TextObjects := TextObjects c @ map Some txts\<rparr>)"
    and "length txts + length imgs = length (recognized context_types rs)"
proof -
  show "ContextElements_UnmarshalJSON J (Some (JArray rs)) c =
     (None, c\<lparr>ImageElements_c := ImageElements_c c @ map Some imgs,
              TextObjects := TextObjects c @ map Some txts\<rparr>)"
    using assms
    by (simp add: ContextElements_UnmarshalJSON_def unmarshal_RawMessages_def decodes_to_def
        ContextElements_loop_ok)
  from recognized_count_context [of rs] assms(2-3) [THEN decodes_to_length]
  show "length txts + length imgs = length (recognized context_types rs)"
    by simp
qed

text \<open>
  C2, as the code has it. Take an array of well-formed objects (JSON objects that hold
  no number out of the range of \<^verbatim>\<open>float64\<close>) in which every element of a recognized
  variant decodes as the struct of its variant. Whatever other discriminators occur in
  it, the call returns no error; each accumulator receives, after its prior contents and
  in array order, exactly the decoded elements of its variant; and the number of
  elements added to the container is the number of recognized elements of the array.
  An element of an unrecognized variant therefore reaches no accumulator.
\<close>

theorem unrecognized_variant_is_skipped:
  "(list_all (wellformed_object (parseFloat_ok JB)) rs
    \<and> decodes_to (unmarshal_ActionBlock JB) (of_type ''actions'' rs) acts
    \<and> decodes_to (unmarshal_ContextBlock JB) (of_type ''context'' rs) ctxs
    \<and> decodes_to (unmarshal_DividerBlock JB) (of_type ''divider'' rs) divs
    \<and> decodes_to (unmarshal_ImageBlock JB) (of_type ''image'' rs) iblks
    \<and> decodes_to (unmarshal_SectionBlock JB) (of_type ''section'' rs) secs
    \<longrightarrow>
      Blocks_UnmarshalJSON JB (Some (JArray rs)) b =
        (None, b\<lparr>ActionBlocks := ActionBlocks b @ map Some acts,
                 ContextBlocks := ContextBlocks b @ map Some ctxs,
                 DividerBlocks := DividerBlocks b @ map Some divs,
                 ImageBlocks := ImageBlocks b @ map Some iblks,
                 SectionBlocks := SectionBlocks b @ map Some secs\<rparr>)
      \<and> count_Blocks (snd (Blocks_UnmarshalJSON JB (Some (JArray rs)) b))
          = count_Blocks b + length (recognized block_types rs))
   \<and> (list_all (wellformed_object (parseFloat_ok J)) rs
    \<and> decodes_to (unmarshal_ImageBlockElement J) (of_type ''image'' rs) imgs
    \<and> decodes_to (unmarshal_ButtonBlockElement J) (of_type ''button'' rs) btns
    \<and> decodes_to (unmarshal_OverflowBlockElement J) (of_type ''overflow'' rs) ovfs
    \<and> decodes_to (unmarshal_DatePickerBlockElement J) (of_type ''datepicker'' rs) dps
    \<and> decodes_to (unmarshal_SelectBlockElement J) (of_type ''static_select'' rs) sels
    \<longrightarrow>
      BlockElements_UnmarshalJSON J (Some (JArray rs)) e =
        (None, e\<lparr>ImageElements := ImageElements e @ map Some imgs,
                 ButtonElements := ButtonElements e @ map Some btns,
                 OverflowElements := OverflowElements e @ map Some ovfs,
                 DatePickerElements := DatePickerElements e @ map Some dps,
                 SelectElements := SelectElements e @ map Some sels\<rparr>)
      \<and> count_BlockElements (snd (BlockElements_UnmarshalJSON J (Some (JArray rs)) e))
          = count_BlockElements e + length (recognized element_types rs))
   \<and> (list_all (wellformed_object (parseFloat_ok J)) rs
    \<and> decodes_to (unmarshal_TextBlockObject J) (text_typed rs) txts
    \<and> decodes_to (unmarshal_ImageBlockElement J) (of_type ''image'' rs) imgs
    \<longrightarrow>
      ContextElements_UnmarshalJSON J (Some (JArray rs)) c =
        (None, c\<lparr>ImageElements_c := ImageElements_c c @ map Some imgs,
                 TextObjects := TextObjects c @ map Some txts\<rparr>)
      \<and> count_ContextElements (snd (ContextElements_UnmarshalJSON J (Some (JArray rs)) c))
          = count_ContextElements c + length (recognized context_types rs))"
proof (intro conjI impI)
  assume h: "list_all (wellformed_object (parseFloat_ok JB)) rs
    \<and> decodes_to (unmarshal_ActionBlock JB) (of_type ''actions'' rs) acts
    \<and> decodes_to (unmarshal_ContextBlock JB) (of_type ''context'' rs) ctxs
    \<and> decodes_to (unmarshal_DividerBlock JB) (of_type ''divider'' rs) divs
    \<and> decodes_to (unmarshal_ImageBlock JB) (of_type ''image'' rs) iblks
    \<and> decodes_to (unmarshal_SectionBlock JB) (of_type ''section'' rs) secs"
  then have r: "Blocks_UnmarshalJSON JB (Some (JArray rs)) b =
        (None, b\<lparr>ActionBlocks := ActionBlocks b @ map Some acts,
                 ContextBlocks := ContextBlocks b @ map Some ctxs,
                 DividerBlocks := DividerBlocks b @ map Some divs,
                 ImageBlocks := ImageBlocks b @ map Some iblks,
                 SectionBlocks := SectionBlocks b @ map Some secs\<rparr>)"
    by (simp add: Blocks_decode_ok(1))
  from h have n: "length acts + length ctxs + length divs + length iblks + length secs
      = length (recognized block_types rs)"
    using Blocks_decode_ok(2) [where JB = JB and rs = rs] by blast
  show "Blocks_UnmarshalJSON JB (Some (JArray rs)) b =
        (None, b\<lparr>ActionBlocks := ActionBlocks b @ map Some acts,
                 ContextBlocks := ContextBlocks b @ map Some ctxs,
                 DividerBlocks := DividerBlocks b @ map Some divs,
                 ImageBlocks := ImageBlocks b @ map Some iblks,
                 SectionBlocks := SectionBlocks b @ map Some secs\<rparr>)"
    by (rule r)
  from n show "count_Blocks (snd (Blocks_UnmarshalJSON JB (Some (JArray rs)) b))
      = count_Blocks b + length (recognized block_types rs)"
    by (simp add: r count_Blocks_def)
next
  assume h: "list_all (wellformed_object (parseFloat_ok J)) rs
    \<and> decodes_to (unmarshal_ImageBlockElement J) (of_type ''image'' rs) imgs
    \<and> decodes_to (unmarshal_ButtonBlockElement J) (of_type ''button'' rs) btns
    \<and> decodes_to (unmarshal_OverflowBlockElement J) (of_type ''overflow'' rs) ovfs
    \<and> decodes_to (unmarshal_DatePickerBlockElement J) (of_type ''datepicker'' rs) dps
    \<and> decodes_to (unmarshal_SelectBlockElement J) (of_type ''static_select'' rs) sels"
  then have r: "BlockElements_UnmarshalJSON J (Some (JArray rs)) e =
        (None, e\<lparr>ImageElements := ImageElements e @ map Some imgs,
                 ButtonElements := ButtonElements e @ map Some btns,
                 OverflowElements := OverflowElements e @ map Some ovfs,
                 DatePickerElements := DatePickerElements e @ map Some dps,
                 SelectElements := SelectElements e @ map Some sels\<rparr>)"
    by (simp add: BlockElements_decode_ok(1))
  from h have n: "length imgs + length btns + length ovfs + length dps + length sels
      = length (recognized element_types rs)"
    using BlockElements_decode_ok(2) [where J = J and rs = rs] by blast
  show "BlockElements_UnmarshalJSON J (Some (JArray rs)) e =
        (None, e\<lparr>ImageElements := ImageElements e @ map Some imgs,
                 ButtonElements := ButtonElements e @ map Some btns,
                 OverflowElements := OverflowElements e @ map Some ovfs,
                 DatePickerElements := DatePickerElements e @ map Some dps,
                 SelectElements := SelectElements e @ map Some sels\<rparr>)"
    by (rule r)
  from n show "count_BlockElements (snd (BlockElements_UnmarshalJSON J (Some (JArray rs)) e))
      = count_BlockElements e + length (recognized element_types rs)"
    by (simp add: r count_BlockElements_def)
next
  assume h: "list_all (wellformed_object (parseFloat_ok J)) rs
    \<and> decodes_to (unmarshal_TextBlockObject J) (text_typed rs) txts
    \<and> decodes_to (unmarshal_ImageBlockElement J) (of_type ''image'' rs) imgs"
  then have r: "ContextElements_UnmarshalJSON J (Some (JArray rs)) c =
        (None, c\<lparr>ImageElements_c := ImageElements_c c @ map Some imgs,
                 TextObjects := TextObjects c @ map Some txts\<rparr>)"
    by (simp add: ContextElements_decode_ok(1))
  from h have n: "length txts + length imgs = length (recognized context_types rs)"
    using ContextElements_decode_ok(2) [where J = J and rs = rs] by blast
  show "ContextElements_UnmarshalJSON J (Some (JArray rs)) c =
        (None, c\<lparr>ImageElements_c := ImageElements_c c @ map Some imgs,
                 TextObjects := TextObjects c @ map Some txts\<rparr>)"
    by (rule r)
  from n show "count_ContextElements (snd (ContextElements_UnmarshalJSON J (Some (JArray rs)) c))
      = count_ContextElements c + length (recognized context_types rs)"
    by (simp add: r count_ContextElements_def)
qed

theorem unrecognized_variant_is_skipped_witness:
  "list_all (wellformed_object (parseFloat_ok doc_block_json)) mixed_array
   \<and> list_all (wellformed_object (parseFloat_ok doc_json)) mixed_array
   \<and> recognized block_types mixed_array = [typed ''image'', typed ''section'']
   \<and> recognized element_types mixed_array = [typed ''image'', typed ''button'']
   \<and> recognized context_types mixed_array = [typed ''image'', typed ''mrkdwn'']
   \<and> Blocks_UnmarshalJSON doc_block_json (Some (JArray mixed_array)) empty_Blocks
       = (None, empty_Blocks\<lparr>ImageBlocks := [Some (typed ''image'')],
                             SectionBlocks := [Some (typed ''section'')]\<rparr>)
   \<and> count_Blocks (snd (Blocks_UnmarshalJSON doc_block_json (Some (JArray mixed_array))
        empty_Blocks)) = 2
   \<and> BlockElements_UnmarshalJSON doc_json (Some (JArray mixed_array)) empty_BlockElements
       = (None, empty_BlockElements\<lparr>ImageElements := [Some (typed ''image'')],
                                    ButtonElements := [Some (typed ''button'')]\<rparr>)
   \<and> count_BlockElements (snd (BlockElements_UnmarshalJSON doc_json (Some (JArray mixed_array))
        empty_BlockElements)) = 2
   \<and> ContextElements_UnmarshalJSON doc_json (Some (JArray mixed_array)) empty_ContextElements
       = (None, empty_ContextElements\<lparr>ImageElements_c := [Some (typed ''image'')],
                                      TextObjects := [Some (typed ''mrkdwn'')]\<rparr>)
   \<and> count_ContextElements (snd (ContextElements_UnmarshalJSON doc_json
        (Some (JArray mixed_array)) empty_ContextElements)) = 2"
proof -
  have rec: "recognized block_types mixed_array = [typed ''image'', typed ''section'']"
    "recognized element_types mixed_array = [typed ''image'', typed ''button'']"
    "recognized context_types mixed_array = [typed ''image'', typed ''mrkdwn'']"
    by (simp_all add: recognized_def block_types_def element_types_def context_types_def
        mixed_array_def run_defs)
  have wf: "list_all (wellformed_object (parseFloat_ok doc_block_json)) mixed_array"
    "list_all (wellformed_object (parseFloat_ok doc_json)) mixed_array"
    by (simp_all add: mixed_array_def run_defs)
  have hb: "list_all (wellformed_object (parseFloat_ok doc_block_json)) mixed_array
    \<and> decodes_to (unmarshal_ActionBlock doc_block_json) (of_type ''actions'' mixed_array) []
    \<and> decodes_to (unmarshal_ContextBlock doc_block_json) (of_type ''context'' mixed_array) []
    \<and> decodes_to (unmarshal_DividerBlock doc_block_json) (of_type ''divider'' mixed_array) []
    \<and> decodes_to (unmarshal_ImageBlock doc_block_json) (of_type ''image'' mixed_array)
        [typed ''image'']
    \<and> decodes_to (unmarshal_SectionBlock doc_block_json) (of_type ''section'' mixed_array)
        [typed ''section'']"
    by (simp add: mixed_array_def run_defs)
  have he: "list_all (wellformed_object (parseFloat_ok doc_json)) mixed_array
    \<and> decodes_to (unmarshal_ImageBlockElement doc_json) (of_type ''image'' mixed_array)
        [typed ''image'']
    \<and> decodes_to (unmarshal_ButtonBlockElement doc_json) (of_type ''button'' mixed_array)
        [typed ''button'']
    \<and> decodes_to (unmarshal_OverflowBlockElement doc_json) (of_type ''overflow'' mixed_array) []
    \<and> decodes_to (unmarshal_DatePickerBlockElement doc_json)
        (of_type ''datepicker'' mixed_array) []
    \<and> decodes_to (unmarshal_SelectBlockElement doc_json)
        (of_type ''static_select'' mixed_array) []"
    by (simp add: mixed_array_def run_defs)
  have hc: "list_all (wellformed_object (parseFloat_ok doc_json)) mixed_array
    \<and> decodes_to (unmarshal_TextBlockObject doc_json) (text_typed mixed_array)
        [typed ''mrkdwn'']
    \<and> decodes_to (unmarshal_ImageBlockElement doc_json) (of_type ''image'' mixed_array)
        [typed ''image'']"
    by (simp add: mixed_array_def run_defs)
  note t = unrecognized_variant_is_skipped
      [where JB = doc_block_json and J = doc_json and rs = mixed_array
         and b = empty_Blocks and e = empty_BlockElements and c = empty_ContextElements]
  note tb = t [THEN conjunct1, THEN mp, OF hb]
  note te = t [THEN conjunct2, THEN conjunct1, THEN mp, OF he]
  note tc = t [THEN conjunct2, THEN conjunct2, THEN mp, OF hc]
  have b1: "Blocks_UnmarshalJSON doc_block_json (Some (JArray mixed_array)) empty_Blocks
       = (None, empty_Blocks\<lparr>ImageBlocks := [Some (typed ''image'')],
                             SectionBlocks := [Some (typed ''section'')]\<rparr>)"
    using tb [THEN conjunct1] by (simp add: empty_Blocks_def)
  have b2: "count_Blocks (snd (Blocks_UnmarshalJSON doc_block_json (Some (JArray mixed_array))
        empty_Blocks)) = 2"
    using tb [THEN conjunct2] by (simp add: rec count_Blocks_def empty_Blocks_def)
  have e1: "BlockElements_UnmarshalJSON doc_json (Some (JArray mixed_array)) empty_BlockElements
       = (None, empty_BlockElements\<lparr>ImageElements := [Some (typed ''image'')],
                                    ButtonElements := [Some (typed ''button'')]\<rparr>)"
    using te [THEN conjunct1] by (simp add: empty_BlockElements_def)
  have e2: "count_BlockElements (snd (BlockElements_UnmarshalJSON doc_json
        (Some (JArray mixed_array)) empty_BlockElements)) = 2"
    using te [THEN conjunct2] by (simp add: rec count_BlockElements_def empty_BlockElements_def)
  have c1: "ContextElements_UnmarshalJSON doc_json (Some (JArray mixed_array))
        empty_ContextElements
       = (None, empty_ContextElements\<lparr>ImageElements_c := [Some (typed ''image'')],
                                      TextObjects := [Some (typed ''mrkdwn'')]\<rparr>)"
    using tc [THEN conjunct1] by (simp add: empty_ContextElements_def)
  have c2: "count_ContextElements (snd (ContextElements_UnmarshalJSON doc_json
        (Some (JArray mixed_array)) empty_ContextElements)) = 2"
    using tc [THEN conjunct2]
    by (simp add: rec count_ContextElements_def empty_ContextElements_def)
  from wf rec b1 b2 e1 e2 c1 c2 show ?thesis
    by (intro conjI) assumption+
qed

text \<open>
  An array of JSON objects with an element of an unrecognized variant does not always
  decode: the call fails when a recognized element is rejected by its struct decoder,
  and when an element holds a number out of the range of \<^verbatim>\<open>float64\<close>.
\<close>

theorem unrecognized_variant_with_bad_neighbour_fails:
  "list_all is_object
     [typed ''divider'', typed ''future'',
      JObject [(''type'', JString ''section''), (''text'', JNumber ''5'')]]
   \<and> elem_type (typed ''future'') \<notin> set block_types
   \<and> Blocks_UnmarshalJSON strict_block_json
        (Some (JArray [typed ''divider'', typed ''future'',
           JObject [(''type'', JString ''section''), (''text'', JNumber ''5'')]]))
        empty_Blocks
      = (Some UnmarshalTypeError, empty_Blocks\<lparr>DividerBlocks := [Some (typed ''divider'')]\<rparr>)
   \<and> list_all is_object
     [typed ''divider'', JObject [(''type'', JString ''future''), (''x'', JNumber ''1e999'')],
      typed ''image'']
   \<and> elem_type (JObject [(''type'', JString ''future''), (''x'', JNumber ''1e999'')])
       \<notin> set block_types
   \<and> Blocks_UnmarshalJSON strict_block_json
        (Some (JArray [typed ''divider'',
           JObject [(''type'', JString ''future''), (''x'', JNumber ''1e999'')],
           typed ''image'']))
        empty_Blocks
      = (Some UnmarshalTypeError, empty_Blocks\<lparr>DividerBlocks := [Some (typed ''divider'')]\<rparr>)"
  by (simp add: run_defs block_types_def)

section \<open>Accessory\<close>

text \<open>
  C4. The Accessory encoder emits the encoding of one slot alone, with no array around
  it: the first populated slot in the order image, button, overflow, date picker, select,
  whatever the later slots hold; with no slot populated it emits \<^verbatim>\<open>null\<close>.
\<close>

theorem Accessory_MarshalJSON_first_populated:
  "Accessory_MarshalJSON J a =
     (case ImageElement a of
        Some x \<Rightarrow> marshal_ImageBlockElement J x
      | None \<Rightarrow>
     (case ButtonElement a of
        Some x \<Rightarrow> marshal_ButtonBlockElement J x
      | None \<Rightarrow>
     (case OverflowElement a of
        Some x \<Rightarrow> marshal_OverflowBlockElement J x
      | None \<Rightarrow>
     (case DatePickerElement a of
        Some x \<Rightarrow> marshal_DatePickerBlockElement J x
      | None \<Rightarrow>
     (case SelectElement a of
        Some x \<Rightarrow> marshal_SelectBlockElement J x
      | None \<Rightarrow> Inr JNull)))))"
  by (simp add: Accessory_MarshalJSON_def toBlockElement_def marshal_BlockElement_def
      marshal_ptr_def split: option.splits sum.splits)



section \<open>The encoders of the array containers\<close>

lemma fold_append_slice:
  "fold (\<lambda>x s. append_slice s (f x)) xs s =
     (case s of
        None \<Rightarrow> (if xs = [] then None else Some (map f xs))
      | Some ys \<Rightarrow> Some (ys @ map f xs))"
  by (induction xs arbitrary: s) (auto simp: append_slice_def split: option.splits)

lemma toBlockElementSlice_eq:
  "toBlockElementSlice e =
     (if all_BlockElements e = [] then None else Some (all_BlockElements e))"
  by (simp add: toBlockElementSlice_def all_BlockElements_def fold_append_slice
      split: option.splits)

lemma toMixedElements_eq:
  "toMixedElements e =
     (if all_ContextElements e = [] then None else Some (all_ContextElements e))"
  by (simp add: toMixedElements_def all_ContextElements_def fold_append_slice
      split: option.splits)

lemma marshal_list_ok:
  "map enc xs = map Inr js \<Longrightarrow> marshal_list enc xs = Inr js"
  by (induction xs arbitrary: js) auto

text \<open>
  C6, as the code has it. The encoder of \<^verbatim>\<open>BlockElements\<close> hands to \<^verbatim>\<open>json.Marshal\<close> the
  concatenation of the accumulators in the order image, button, overflow, date picker,
  select. When that sequence is not empty the output is one flat array of the
  encodings of its elements, each by its own encoder (the first encoder error is
  returned instead); when every accumulator is empty the slice is nil and the output is
  \<^verbatim>\<open>null\<close>, not an empty array.
\<close>

theorem BlockElements_MarshalJSON_concatenates:
  "BlockElements_MarshalJSON J e =
     (if all_BlockElements e = [] then Inr JNull
      else (case marshal_list (marshal_BlockElement J) (all_BlockElements e) of
              Inl err \<Rightarrow> Inl err
            | Inr js \<Rightarrow> Inr (JArray js)))
   \<and> (all_BlockElements e \<noteq> []
        \<and> map (marshal_BlockElement J) (all_BlockElements e) = map Inr js
      \<longrightarrow> BlockElements_MarshalJSON J e = Inr (JArray js))
   \<and> all_BlockElements e =
       map ImageBE (ImageElements e) @ map ButtonBE (ButtonElements e)
       @ map OverflowBE (OverflowElements e) @ map DatePickerBE (DatePickerElements e)
       @ map SelectBE (SelectElements e)"
  by (simp add: BlockElements_MarshalJSON_def toBlockElementSlice_eq marshal_slice_def
      marshal_list_ok all_BlockElements_def [symmetric] split: sum.splits)

theorem BlockElements_MarshalJSON_concatenates_witness:
  "all_BlockElements
      (empty_BlockElements\<lparr>ImageElements := [Some (typed ''image'')],
                           ButtonElements := [Some (typed ''button''), None]\<rparr>
         :: (json, json, json, json, json) BlockElements) \<noteq> []
   \<and> map (marshal_BlockElement doc_json)
       (all_BlockElements
          (empty_BlockElements\<lparr>ImageElements := [Some (typed ''image'')],
                               ButtonElements := [Some (typed ''button''), None]\<rparr>))
     = map Inr [typed ''image'', typed ''button'', JNull]
   \<and> BlockElements_MarshalJSON doc_json
       (empty_BlockElements\<lparr>ImageElements := [Some (typed ''image'')],
                            ButtonElements := [Some (typed ''button''), None]\<rparr>)
     = Inr (JArray [typed ''image'', typed ''button'', JNull])"
proof -
  let ?e = "empty_BlockElements\<lparr>ImageElements := [Some (typed ''image'')],
      ButtonElements := [Some (typed ''button''), None]\<rparr>
    :: (json, json, json, json, json) BlockElements"
  have h: "all_BlockElements ?e \<noteq> []
     \<and> map (marshal_BlockElement doc_json) (all_BlockElements ?e)
       = map Inr [typed ''image'', typed ''button'', JNull]"
    by (simp add: all_BlockElements_def empty_BlockElements_def marshal_BlockElement_def
        marshal_ptr_def doc_json_def)
  note t = BlockElements_MarshalJSON_concatenates
      [where J = doc_json and e = ?e and js = "[typed ''image'', typed ''button'', JNull]",
       THEN conjunct2, THEN conjunct1, THEN mp, OF h]
  from h [THEN conjunct1] h [THEN conjunct2] t show ?thesis
    by (intro conjI) assumption+
qed

text \<open>A container with no element is encoded as \<^verbatim>\<open>null\<close>, which is no array.\<close>

theorem empty_BlockElements_encodes_null:
  "all_BlockElements (empty_BlockElements :: (json, json, json, json, json) BlockElements) = []
   \<and> BlockElements_MarshalJSON doc_json empty_BlockElements = Inr JNull"
  by (simp add: BlockElements_MarshalJSON_def toBlockElementSlice_def marshal_slice_def
      empty_BlockElements_def all_BlockElements_def)

text \<open>
  C3, as the code has it. The encoder of \<^verbatim>\<open>ContextElements\<close> hands to \<^verbatim>\<open>json.Marshal\<close> all
  image elements followed by all text objects, each group in its stored order. When
  the container holds an element the output is one array of their encodings (the first
  encoder error is returned instead); when it holds none the slice is nil and the output
  is \<^verbatim>\<open>null\<close>. In particular, decoding an array of a markdown text, an image and a plain
  text into a fresh container and encoding it gives the image first and then the two
  texts in their original order.
\<close>

theorem ContextElements_MarshalJSON_images_first:
  "ContextElements_MarshalJSON J e =
     (if all_ContextElements e = [] then Inr JNull
      else (case marshal_list (marshal_mixedElement J) (all_ContextElements e) of
              Inl err \<Rightarrow> Inl err
            | Inr js \<Rightarrow> Inr (JArray js)))
   \<and> (all_ContextElements e \<noteq> []
        \<and> map (marshal_mixedElement J) (all_ContextElements e) = map Inr js
      \<longrightarrow> ContextElements_MarshalJSON J e = Inr (JArray js))
   \<and> all_ContextElements e = map ImageME (ImageElements_c e) @ map TextME (TextObjects e)
   \<and> (list_all (wellformed_object (parseFloat_ok J)) [m, i, p]
        \<and> elem_type m = MarkdownType \<and> elem_type i = ''image'' \<and> elem_type p = PlainTextType
        \<and> unmarshal_TextBlockObject J m = Inr tm \<and> marshal_TextBlockObject J tm = Inr jm
        \<and> unmarshal_ImageBlockElement J i = Inr xi \<and> marshal_ImageBlockElement J xi = Inr ji
        \<and> unmarshal_TextBlockObject J p = Inr tp \<and> marshal_TextBlockObject J tp = Inr jp
      \<longrightarrow> ContextElements_MarshalJSON J
            (snd (ContextElements_UnmarshalJSON J (Some (JArray [m, i, p]))
                    empty_ContextElements))
          = Inr (JArray [ji, jm, jp]))"
proof -
  have enc: "ContextElements_MarshalJSON J e =
     (if all_ContextElements e = [] then Inr JNull
      else (case marshal_list (marshal_mixedElement J) (all_ContextElements e) of
              Inl err \<Rightarrow> Inl err
            | Inr js \<Rightarrow> Inr (JArray js)))" for e
    by (simp add: ContextElements_MarshalJSON_def toMixedElements_eq marshal_slice_def
        split: sum.splits)
  have ex: "ContextElements_MarshalJSON J
            (snd (ContextElements_UnmarshalJSON J (Some (JArray [m, i, p]))
                    empty_ContextElements))
          = Inr (JArray [ji, jm, jp])"
    if h: "list_all (wellformed_object (parseFloat_ok J)) [m, i, p]
        \<and> elem_type m = MarkdownType \<and> elem_type i = ''image'' \<and> elem_type p = PlainTextType
        \<and> unmarshal_TextBlockObject J m = Inr tm \<and> marshal_TextBlockObject J tm = Inr jm
        \<and> unmarshal_ImageBlockElement J i = Inr xi \<and> marshal_ImageBlockElement J xi = Inr ji
        \<and> unmarshal_TextBlockObject J p = Inr tp \<and> marshal_TextBlockObject J tp = Inr jp"
  proof -
    from h have "ContextElements_UnmarshalJSON J (Some (JArray [m, i, p])) empty_ContextElements
        = (None, \<lparr>ImageElements_c = [Some xi], TextObjects = [Some tm, Some tp]\<rparr>)"
      by (simp add: ContextElements_UnmarshalJSON_def unmarshal_RawMessages_def
          ContextElements_step_wellformed empty_ContextElements_def PlainTextType_def
          MarkdownType_def)
    with h show ?thesis
      by (simp add: enc all_ContextElements_def marshal_mixedElement_def marshal_ptr_def)
  qed
  from enc [of e] ex show ?thesis
    by (simp add: marshal_list_ok all_ContextElements_def [symmetric])
qed

theorem ContextElements_MarshalJSON_images_first_witness:
  "list_all (wellformed_object (parseFloat_ok doc_json))
     [typed ''mrkdwn'', typed ''image'', typed ''plain_text'']
   \<and> elem_type (typed ''mrkdwn'') = MarkdownType \<and> elem_type (typed ''image'') = ''image''
   \<and> elem_type (typed ''plain_text'') = PlainTextType
   \<and> ContextElements_MarshalJSON doc_json
       (snd (ContextElements_UnmarshalJSON doc_json
               (Some (JArray [typed ''mrkdwn'', typed ''image'', typed ''plain_text'']))
               empty_ContextElements))
     = Inr (JArray [typed ''image'', typed ''mrkdwn'', typed ''plain_text''])
   \<and> all_ContextElements
       (\<lparr>ImageElements_c = [Some (typed ''image'')],
         TextObjects = [Some (typed ''mrkdwn''), Some (typed ''plain_text'')]\<rparr>
          :: (json, json) ContextElements) \<noteq> []
   \<and> ContextElements_MarshalJSON doc_json
       \<lparr>ImageElements_c = [Some (typed ''image'')],
        TextObjects = [Some (typed ''mrkdwn''), Some (typed ''plain_text'')]\<rparr>
     = Inr (JArray [typed ''image'', typed ''mrkdwn'', typed ''plain_text''])"
proof -
  let ?m = "typed ''mrkdwn''" and ?i = "typed ''image''" and ?p = "typed ''plain_text''"
  let ?e = "\<lparr>ImageElements_c = [Some ?i], TextObjects = [Some ?m, Some ?p]\<rparr>
    :: (json, json) ContextElements"
  have h1: "list_all (wellformed_object (parseFloat_ok doc_json)) [?m, ?i, ?p]"
    and h2: "elem_type ?m = MarkdownType" and h3: "elem_type ?i = ''image''"
    and h4: "elem_type ?p = PlainTextType"
    by (simp_all add: run_defs)
  have h: "list_all (wellformed_object (parseFloat_ok doc_json)) [?m, ?i, ?p]
        \<and> elem_type ?m = MarkdownType \<and> elem_type ?i = ''image'' \<and> elem_type ?p = PlainTextType
        \<and> unmarshal_TextBlockObject doc_json ?m = Inr ?m
        \<and> marshal_TextBlockObject doc_json ?m = Inr ?m
        \<and> unmarshal_ImageBlockElement doc_json ?i = Inr ?i
        \<and> marshal_ImageBlockElement doc_json ?i = Inr ?i
        \<and> unmarshal_TextBlockObject doc_json ?p = Inr ?p
        \<and> marshal_TextBlockObject doc_json ?p = Inr ?p"
    using h1 h2 h3 h4 by (simp add: doc_json_def)
  have g: "all_ContextElements ?e \<noteq> []
        \<and> map (marshal_mixedElement doc_json) (all_ContextElements ?e) = map Inr [?i, ?m, ?p]"
    by (simp add: all_ContextElements_def marshal_mixedElement_def marshal_ptr_def doc_json_def)
  note t1 = ContextElements_MarshalJSON_images_first
      [where J = doc_json and m = ?m and i = ?i and p = ?p and tm = ?m and jm = ?m
         and xi = ?i and ji = ?i and tp = ?p and jp = ?p,
       THEN conjunct2, THEN conjunct2, THEN conjunct2, THEN mp, OF h]
  note t2 = ContextElements_MarshalJSON_images_first
      [where J = doc_json and e = ?e and js = "[?i, ?m, ?p]",
       THEN conjunct2, THEN conjunct1, THEN mp, OF g]
  from h1 h2 h3 h4 t1 g [THEN conjunct1] t2 show ?thesis
    by (intro conjI) assumption+
qed

text \<open>A context container with no element is encoded as \<^verbatim>\<open>null\<close>, which is no array.\<close>

theorem empty_ContextElements_encodes_null:
  "all_ContextElements (empty_ContextElements :: (json, json) ContextElements) = []
   \<and> ContextElements_MarshalJSON doc_json empty_ContextElements = Inr JNull"
  by (simp add: ContextElements_MarshalJSON_def toMixedElements_def marshal_slice_def
      empty_ContextElements_def all_ContextElements_def)

section \<open>Decoding and encoding again\<close>

lemma map_eq_zipD:
  assumes "map f rs = map g js" and "(r, j) \<in> set (zip rs js)"
  shows "f r = g j"
proof -
  from assms(2) obtain n where "n < length rs" "n < length js" "rs ! n = r" "js ! n = j"
    by (auto simp: in_set_zip)
  with assms(1) show ?thesis
    by (metis nth_map)
qed

lemma picks_Cons:
  "picks t (r # rs) (j # js) = (if elem_type r = t then j # picks t rs js else picks t rs js)"
  by (simp add: picks_def)

lemma of_type_Cons:
  "of_type t (r # rs) = (if elem_type r = t then r # of_type t rs else of_type t rs)"
  by (simp add: of_type_def)

lemma recode_kind:
  assumes "length rs = length js"
    and "\<And>r j. (r, j) \<in> set (zip rs js) \<Longrightarrow> elem_type r = t
           \<Longrightarrow> \<exists>x. dec r = Inr x \<and> enc x = Inr j"
  shows "\<exists>xs. map dec (of_type t rs) = map Inr xs \<and> map enc xs = map Inr (picks t rs js)"
  using assms
proof (induction rs js rule: list_induct2)
  case Nil
  show ?case by (simp add: of_type_def picks_def)
next
  case (Cons r rs j js)
  from Cons.IH Cons.prems obtain xs
    where xs: "map dec (of_type t rs) = map Inr xs" "map enc xs = map Inr (picks t rs js)"
    by auto
  show ?case
  proof (cases "elem_type r = t")
    case True
    with Cons.prems [of r j] obtain x where "dec r = Inr x" "enc x = Inr j"
      by auto
    with xs True have "map dec (of_type t (r # rs)) = map Inr (x # xs)
        \<and> map enc (x # xs) = map Inr (picks t (r # rs) (j # js))"
      by (simp add: picks_Cons of_type_Cons)
    then show ?thesis by blast
  next
    case False
    with xs show ?thesis
      by (auto simp: picks_Cons of_type_Cons)
  qed
qed

lemma recode_recognized:
  assumes "recode_BlockElement J r = Inr j"
  shows "elem_type r \<in> set element_types"
  using assms
  by (simp add: recode_BlockElement_def element_types_def split: if_splits)

lemma grouped_mset:
  assumes "length rs = length js" and "\<forall>r\<in>set rs. elem_type r \<in> set element_types"
  shows "mset (grouped rs js) = mset js"
  using assms
proof (induction rs js rule: list_induct2)
  case Nil
  show ?case by (simp add: grouped_def picks_def)
next
  case (Cons r rs j js)
  then have "mset (grouped rs js) = mset js"
    by simp
  moreover from Cons.prems have "elem_type r \<in> set element_types"
    by simp
  ultimately show ?case
    by (auto simp: grouped_def picks_Cons element_types_def)
qed

lemma marshal_images: "map (marshal_BlockElement J) (map ImageBE (map Some xs))
    = map (marshal_ImageBlockElement J) xs"
  by (simp add: marshal_BlockElement_def marshal_ptr_def)

lemma marshal_buttons: "map (marshal_BlockElement J) (map ButtonBE (map Some xs))
    = map (marshal_ButtonBlockElement J) xs"
  by (simp add: marshal_BlockElement_def marshal_ptr_def)

lemma marshal_overflows: "map (marshal_BlockElement J) (map OverflowBE (map Some xs))
    = map (marshal_OverflowBlockElement J) xs"
  by (simp add: marshal_BlockElement_def marshal_ptr_def)

lemma marshal_datepickers: "map (marshal_BlockElement J) (map DatePickerBE (map Some xs))
    = map (marshal_DatePickerBlockElement J) xs"
  by (simp add: marshal_BlockElement_def marshal_ptr_def)

lemma marshal_selects: "map (marshal_BlockElement J) (map SelectBE (map Some xs))
    = map (marshal_SelectBlockElement J) xs"
  by (simp add: marshal_BlockElement_def marshal_ptr_def)

lemma BlockElements_roundtrip:
  assumes ne: "rs \<noteq> []"
    and wf: "list_all (wellformed_object (parseFloat_ok J)) rs"
    and rc: "map (recode_BlockElement J) rs = map Inr js"
  shows "fst (BlockElements_UnmarshalJSON J (Some (JArray rs)) empty_BlockElements) = None"
    and "BlockElements_MarshalJSON J
           (snd (BlockElements_UnmarshalJSON J (Some (JArray rs)) empty_BlockElements))
         = Inr (JArray (grouped rs js))"
    and "mset (grouped rs js) = mset js"
proof -
  from rc have len: "length rs = length js"
    by (rule map_eq_imp_length_eq)
  have each: "recode_BlockElement J r = Inr j" if "(r, j) \<in> set (zip rs js)" for r j
    using map_eq_zipD [OF rc that] .
  have rec: "\<forall>r\<in>set rs. elem_type r \<in> set element_types"
  proof
    fix r assume "r \<in> set rs"
    with len obtain j where "(r, j) \<in> set (zip rs js)"
      by (metis in_set_impl_in_set_zip1)
    from recode_recognized [OF each [OF this]] show "elem_type r \<in> set element_types" .
  qed
  from grouped_mset [OF len rec] show ms: "mset (grouped rs js) = mset js" .
  have "\<exists>xs. map (unmarshal_ImageBlockElement J) (of_type ''image'' rs) = map Inr xs
      \<and> map (marshal_ImageBlockElement J) xs = map Inr (picks ''image'' rs js)"
    by (rule recode_kind [OF len])
      (auto dest!: each simp: recode_BlockElement_def split: sum.splits)
  then obtain imgs where imgs:
    "map (unmarshal_ImageBlockElement J) (of_type ''image'' rs) = map Inr imgs"
    "map (marshal_ImageBlockElement J) imgs = map Inr (picks ''image'' rs js)"
    by blast
  have "\<exists>xs. map (unmarshal_ButtonBlockElement J) (of_type ''button'' rs) = map Inr xs
      \<and> map (marshal_ButtonBlockElement J) xs = map Inr (picks ''button'' rs js)"
    by (rule recode_kind [OF len])
      (auto dest!: each simp: recode_BlockElement_def split: sum.splits)
  then obtain btns where btns:
    "map (unmarshal_ButtonBlockElement J) (of_type ''button'' rs) = map Inr btns"
    "map (marshal_ButtonBlockElement J) btns = map Inr (picks ''button'' rs js)"
    by blast
  have "\<exists>xs. map (unmarshal_OverflowBlockElement J) (of_type ''overflow'' rs) = map Inr xs
      \<and> map (marshal_OverflowBlockElement J) xs = map Inr (picks ''overflow'' rs js)"
    by (rule recode_kind [OF len])
      (auto dest!: each simp: recode_BlockElement_def split: sum.splits)
  then obtain ovfs where ovfs:
    "map (unmarshal_OverflowBlockElement J) (of_type ''overflow'' rs) = map Inr ovfs"
    "map (marshal_OverflowBlockElement J) ovfs = map Inr (picks ''overflow'' rs js)"
    by blast
  have "\<exists>xs. map (unmarshal_DatePickerBlockElement J) (of_type ''datepicker'' rs) = map Inr xs
      \<and> map (marshal_DatePickerBlockElement J) xs = map Inr (picks ''datepicker'' rs js)"
    by (rule recode_kind [OF len])
      (auto dest!: each simp: recode_BlockElement_def split: sum.splits)
  then obtain dps where dps:
    "map (unmarshal_DatePickerBlockElement J) (of_type ''datepicker'' rs) = map Inr dps"
    "map (marshal_DatePickerBlockElement J) dps = map Inr (picks ''datepicker'' rs js)"
    by blast
  have "\<exists>xs. map (unmarshal_SelectBlockElement J) (of_type ''static_select'' rs) = map Inr xs
      \<and> map (marshal_SelectBlockElement J) xs = map Inr (picks ''static_select'' rs js)"
    by (rule recode_kind [OF len])
      (auto dest!: each simp: recode_BlockElement_def split: sum.splits)
  then obtain sels where sels:
    "map (unmarshal_SelectBlockElement J) (of_type ''static_select'' rs) = map Inr sels"
    "map (marshal_SelectBlockElement J) sels = map Inr (picks ''static_select'' rs js)"
    by blast
  let ?e = "\<lparr>ImageElements = map Some imgs, ButtonElements = map Some btns,
      OverflowElements = map Some ovfs, DatePickerElements = map Some dps,
      SelectElements = map Some sels\<rparr>"
  have dec: "BlockElements_UnmarshalJSON J (Some (JArray rs)) empty_BlockElements = (None, ?e)"
    using BlockElements_decode_ok(1)
      [OF wf, of imgs btns ovfs dps sels empty_BlockElements]
      imgs(1) btns(1) ovfs(1) dps(1) sels(1)
    by (simp add: decodes_to_def empty_BlockElements_def)
  then show "fst (BlockElements_UnmarshalJSON J (Some (JArray rs)) empty_BlockElements) = None"
    by simp
  have enc: "map (marshal_BlockElement J) (all_BlockElements ?e) = map Inr (grouped rs js)"
    by (simp add: all_BlockElements_def grouped_def marshal_images marshal_buttons
        marshal_overflows marshal_datepickers marshal_selects
        imgs(2) btns(2) ovfs(2) dps(2) sels(2) del: map_map)
  from ne len have "js \<noteq> []"
    by auto
  with ms have "grouped rs js \<noteq> []"
    by auto
  with enc have "all_BlockElements ?e \<noteq> []"
    by auto
  with enc have "BlockElements_MarshalJSON J ?e = Inr (JArray (grouped rs js))"
    by (simp add: BlockElements_MarshalJSON_def toBlockElementSlice_eq marshal_slice_def
        marshal_list_ok)
  with dec show "BlockElements_MarshalJSON J
           (snd (BlockElements_UnmarshalJSON J (Some (JArray rs)) empty_BlockElements))
         = Inr (JArray (grouped rs js))"
    by simp
qed

text \<open>
  C5, as the code has it. Take a non-empty array of well-formed objects, each of a
  recognized \<^verbatim>\<open>BlockElement\<close> variant, whose elements decode as the structs of their
  variants and encode again to the documents \<open>js\<close>, element by element. Decoding it into
  a fresh container returns no error, and encoding that container gives the array of
  \<open>js\<close> grouped by kind in the order image, button, overflow, date picker, select, the
  order inside a kind kept; every element occurs in it exactly once. For the empty
  array the result is \<^verbatim>\<open>null\<close>, not an array.
\<close>

theorem BlockElements_decode_then_encode:
  "(rs \<noteq> [] \<and> list_all (wellformed_object (parseFloat_ok J)) rs
     \<and> map (recode_BlockElement J) rs = map Inr js
    \<longrightarrow> fst (BlockElements_UnmarshalJSON J (Some (JArray rs)) empty_BlockElements) = None
        \<and> BlockElements_MarshalJSON J
            (snd (BlockElements_UnmarshalJSON J (Some (JArray rs)) empty_BlockElements))
          = Inr (JArray (grouped rs js))
        \<and> mset (grouped rs js) = mset js)
   \<and> BlockElements_MarshalJSON J
       (snd (BlockElements_UnmarshalJSON J (Some (JArray [])) empty_BlockElements))
     = Inr JNull"
proof (intro conjI impI)
  assume h: "rs \<noteq> [] \<and> list_all (wellformed_object (parseFloat_ok J)) rs
     \<and> map (recode_BlockElement J) rs = map Inr js"
  then have ne: "rs \<noteq> []" and wf: "list_all (wellformed_object (parseFloat_ok J)) rs"
    and rc: "map (recode_BlockElement J) rs = map Inr js"
    by simp_all
  from BlockElements_roundtrip(1) [OF ne wf rc]
  show "fst (BlockElements_UnmarshalJSON J (Some (JArray rs)) empty_BlockElements) = None" .
  from BlockElements_roundtrip(2) [OF ne wf rc]
  show "BlockElements_MarshalJSON J
            (snd (BlockElements_UnmarshalJSON J (Some (JArray rs)) empty_BlockElements))
          = Inr (JArray (grouped rs js))" .
  from BlockElements_roundtrip(3) [OF ne wf rc]
  show "mset (grouped rs js) = mset js" .
next
  show "BlockElements_MarshalJSON J
       (snd (BlockElements_UnmarshalJSON J (Some (JArray [])) empty_BlockElements))
     = Inr JNull"
    by (simp add: BlockElements_UnmarshalJSON_def unmarshal_RawMessages_def
        BlockElements_MarshalJSON_def toBlockElementSlice_def marshal_slice_def
        empty_BlockElements_def)
qed

theorem BlockElements_decode_then_encode_witness:
  "[typed ''static_select'', typed ''button'', typed ''image'', typed ''button''] \<noteq> []
   \<and> list_all (wellformed_object (parseFloat_ok doc_json))
       [typed ''static_select'', typed ''button'', typed ''image'', typed ''button'']
   \<and> map (recode_BlockElement doc_json)
       [typed ''static_select'', typed ''button'', typed ''image'', typed ''button'']
     = map Inr [typed ''static_select'', typed ''button'', typed ''image'', typed ''button'']
   \<and> BlockElements_MarshalJSON doc_json
       (snd (BlockElements_UnmarshalJSON doc_json
          (Some (JArray
             [typed ''static_select'', typed ''button'', typed ''image'', typed ''button'']))
          empty_BlockElements))
     = Inr (JArray
         [typed ''image'', typed ''button'', typed ''button'', typed ''static_select''])"
proof -
  let ?rs = "[typed ''static_select'', typed ''button'', typed ''image'', typed ''button'']"
  have h1: "?rs \<noteq> []" by simp
  have h2: "list_all (wellformed_object (parseFloat_ok doc_json)) ?rs"
    by (simp add: run_defs)
  have h3: "map (recode_BlockElement doc_json) ?rs = map Inr ?rs"
    by (simp add: recode_BlockElement_def run_defs)
  have g: "grouped ?rs ?rs
      = [typed ''image'', typed ''button'', typed ''button'', typed ''static_select'']"
    by (simp add: grouped_def picks_def run_defs)
  note t = BlockElements_decode_then_encode
      [where J = doc_json and rs = ?rs and js = ?rs,
       THEN conjunct1, THEN mp, OF conjI [OF h1 conjI [OF h2 h3]],
       THEN conjunct2, THEN conjunct1]
  from t have r: "BlockElements_MarshalJSON doc_json
       (snd (BlockElements_UnmarshalJSON doc_json (Some (JArray ?rs)) empty_BlockElements))
     = Inr (JArray
         [typed ''image'', typed ''button'', typed ''button'', typed ''static_select''])"
    by (simp only: g)
  from h1 h2 h3 r show ?thesis
    by (intro conjI) assumption+
qed

text \<open>The empty array decodes without error and is encoded again as \<^verbatim>\<open>null\<close>.\<close>

theorem empty_array_encodes_null:
  "BlockElements_UnmarshalJSON doc_json (Some (JArray [])) empty_BlockElements
     = (None, empty_BlockElements)
   \<and> BlockElements_MarshalJSON doc_json
       (snd (BlockElements_UnmarshalJSON doc_json (Some (JArray [])) empty_BlockElements))
     = Inr JNull"
  by (simp add: BlockElements_UnmarshalJSON_def unmarshal_RawMessages_def
      BlockElements_MarshalJSON_def toBlockElementSlice_def marshal_slice_def
      empty_BlockElements_def)

end
